theory Spec2Isabelle
  imports Complex_Main "HOL-Library.Multiset"
begin

section \<open>Data model of \<open>App.tsx\<close>\<close>

text \<open>
  Strings are lists of 8-bit code units (the Latin-1 range of JavaScript's UTF-16 code
  units). A JavaScript number is \<open>NaN\<close>, an infinity or a finite value.
\<close>

datatype jsnum = NaN | PosInfinity | NegInfinity | Finite real

text \<open>
  \<open>type Todo = { id; name; room; model?; price?; imgUrl?; link?; completed }\<close>.
  An optional field is an \<open>option\<close> (\<open>None\<close> is \<open>undefined\<close>). The field \<open>id\<close> is
  called \<open>todo_id\<close>, since \<open>id\<close> is the identity function of HOL.
\<close>

record Todo =
  todo_id :: string
  name :: string
  room :: string
  model :: "string option"
  price :: "jsnum option"
  imgUrl :: "string option"
  link :: "string option"
  completed :: bool

text \<open>
  The state of the component \<open>App\<close>: the \<open>useState\<close> cells that the handlers read or
  write. The form cells \<open>name\<close>, \<open>room\<close>, \<open>model\<close>, \<open>price\<close>, \<open>imgUrl\<close>, \<open>link\<close> carry the
  prefix \<open>form_\<close> (the record \<open>Todo\<close> has fields of the same names). \<open>None\<close> is \<open>null\<close>.
  The cells of the presentation layer (\<open>filter\<close>, \<open>roomFilter\<close>, \<open>preview\<close>) and the
  DOM node held by \<open>dragImgRef\<close> are left out.
\<close>

record App =
  todos :: "Todo list"
  selectedCollection :: string
  form_name :: string
  form_room :: string
  form_model :: string
  form_price :: string
  form_imgUrl :: string
  form_link :: string
  error :: "string option"
  modalOpen :: bool
  editId :: "string option"
  draggingId :: "string option"

text \<open>
  What a handler sends out. A payload is the object literal handed to Firestore, as the
  list of its properties in insertion order; \<open>DeleteField\<close> is the sentinel returned by
  \<open>deleteField()\<close> and \<open>ServerTimestamp\<close> the one returned by \<open>serverTimestamp()\<close>.
  \<open>BatchCommit\<close> is one \<open>writeBatch\<close> with its \<open>update\<close> calls in order, committed once.
  A document reference \<open>doc(db, collection, id)\<close> is the pair of collection and id.
\<close>

datatype fieldval = VStr string | VNum jsnum | VBool bool | DeleteField | ServerTimestamp

type_synonym payload = "(string \<times> fieldval) list"

datatype effect =
    AddDoc string payload
  | UpdateDoc string string payload
  | DeleteDoc string string
  | BatchCommit "(string \<times> string \<times> payload) list"
  | ConsoleWarn string

section \<open>JavaScript built-ins used by the handlers\<close>

text \<open>\<open>Array.prototype.findIndex\<close>: the first index whose element satisfies the predicate;
  \<open>None\<close> stands for the result \<open>-1\<close>.\<close>

fun findIndex :: "('a \<Rightarrow> bool) \<Rightarrow> 'a list \<Rightarrow> nat option" where
  "findIndex P [] = None"
| "findIndex P (x # xs) = (if P x then Some 0 else map_option Suc (findIndex P xs))"

text \<open>\<open>Array.prototype.splice(start, deleteCount, ...items)\<close> for a non-negative \<open>start\<close>:
  the array after the call and the array of removed elements. JavaScript clamps \<open>start\<close>
  to the length and \<open>deleteCount\<close> to what is left, which \<open>take\<close> and \<open>drop\<close> do too.\<close>

definition splice :: "nat \<Rightarrow> nat \<Rightarrow> 'a list \<Rightarrow> 'a list \<Rightarrow> 'a list \<times> 'a list" where
  "splice start deleteCount items xs =
     (take start xs @ items @ drop (start + deleteCount) xs, take deleteCount (drop start xs))"

text \<open>The number written for an array index or a length.\<close>

definition js_of_nat :: "nat \<Rightarrow> jsnum" where
  "js_of_nat n = Finite (real n)"

section \<open>Drag and drop\<close>

text \<open>\<open>onDragStartCard(id, e)\<close>: \<open>setDraggingId(id)\<close>; the rest builds the drag image.\<close>

definition onDragStartCard :: "string \<Rightarrow> App \<Rightarrow> App" where
  "onDragStartCard i st = st\<lparr>draggingId := Some i\<rparr>"

text \<open>The batch of \<open>onDropCard\<close>: \<open>newList.forEach((t, idx) => batch.update(doc(db,
  selectedCollection, t.id), { sort: idx }))\<close>.\<close>

definition sort_batch :: "string \<Rightarrow> Todo list \<Rightarrow> (string \<times> string \<times> payload) list" where
  "sort_batch coll newList =
     map (\<lambda>(idx, t). (coll, todo_id t, [(''sort'', VNum (js_of_nat idx))])) (enumerate 0 newList)"

text \<open>
  \<open>onDropCard(targetId)\<close>. The two early returns leave everything as it is. Otherwise
  the dragged item is spliced out at \<open>srcIdx\<close> and spliced in at \<open>dstIdx\<close> (both indices
  taken in the list before the move), the new list is stored with \<open>setTodos\<close>, one batch
  writes \<open>sort\<close> for every item, and \<open>draggingId\<close> is reset. \<open>srcIdx\<close> is in range when
  \<open>findIndex\<close> found it, so the first splice removes exactly one element, which the
  destructuring \<open>[moved] = ...\<close> picks.
\<close>

definition onDropCard :: "string \<Rightarrow> App \<Rightarrow> App \<times> effect list" where
  "onDropCard targetId st =
     (case draggingId st of
        None \<Rightarrow> (st, [])
      | Some d \<Rightarrow>
          if d = [] \<or> d = targetId then (st, [])
          else
            case (findIndex (\<lambda>t. todo_id t = d) (todos st),
                  findIndex (\<lambda>t. todo_id t = targetId) (todos st)) of
              (Some srcIdx, Some dstIdx) \<Rightarrow>
                (case splice srcIdx 1 [] (todos st) of
                   (rest, removed) \<Rightarrow>
                     let moved = take 1 removed;
                         newList = fst (splice dstIdx 0 moved rest)
                     in (st\<lparr>todos := newList, draggingId := None\<rparr>,
                         [BatchCommit (sort_batch (selectedCollection st) newList)]))
            | _ \<Rightarrow> (st, []))"

section \<open>The live subscription\<close>

text \<open>
  A document of a snapshot: its id and its data. The data has the shape of the cast in
  the snapshot callback. A field is absent (\<open>Undefined\<close>), \<open>null\<close> or holds a value. The
  string fields hold strings, as the cast declares; \<open>price\<close> and \<open>completed\<close>, which the
  callback inspects at run time, hold any stored value (\<open>JObject\<close> stands for every value
  whose \<open>typeof\<close> is \<open>'object'\<close>: maps, arrays, timestamps).
\<close>

datatype 'a field = Undefined | Null | Val 'a

datatype jsval = JBool bool | JNum jsnum | JStr string | JObject

record DocData =
  data_name :: "string field"
  data_title :: "string field"
  data_room :: "string field"
  data_model :: "string field"
  data_price :: "jsval field"
  data_imgUrl :: "string field"
  data_link :: "string field"
  data_completed :: "jsval field"

record Doc =
  doc_id :: string
  doc_data :: DocData

text \<open>\<open>a ?? b\<close> where \<open>b\<close> is a field, a plain value, or \<open>undefined\<close>.\<close>

fun coalesce :: "'a field \<Rightarrow> 'a field \<Rightarrow> 'a field" where
  "coalesce (Val v) b = Val v"
| "coalesce Undefined b = b"
| "coalesce Null b = b"

fun or_default :: "'a field \<Rightarrow> 'a \<Rightarrow> 'a" where
  "or_default (Val v) b = v"
| "or_default Undefined b = b"
| "or_default Null b = b"

fun or_undefined :: "'a field \<Rightarrow> 'a option" where
  "or_undefined (Val v) = Some v"
| "or_undefined Undefined = None"
| "or_undefined Null = None"

text \<open>\<open>typeof x === 'number' ? x : undefined\<close>.\<close>

fun number_or_undefined :: "jsval field \<Rightarrow> jsnum option" where
  "number_or_undefined (Val (JNum n)) = Some n"
| "number_or_undefined x = None"

text \<open>\<open>!!x\<close>: \<open>undefined\<close>, \<open>null\<close>, \<open>false\<close>, \<open>0\<close>, \<open>NaN\<close> and the empty string are falsy.\<close>

fun truthy :: "jsval field \<Rightarrow> bool" where
  "truthy Undefined = False"
| "truthy Null = False"
| "truthy (Val (JBool b)) = b"
| "truthy (Val (JNum NaN)) = False"
| "truthy (Val (JNum (Finite r))) = (r \<noteq> 0)"
| "truthy (Val (JNum n)) = True"
| "truthy (Val (JStr s)) = (s \<noteq> [])"
| "truthy (Val JObject) = True"

text \<open>The mapping \<open>d => ({ id: d.id, name: data.name ?? data.title ?? '', ... })\<close>.\<close>

definition docToTodo :: "Doc \<Rightarrow> Todo" where
  "docToTodo d =
     (let data = doc_data d in
      \<lparr>todo_id = doc_id d,
       name = or_default (coalesce (data_name data) (data_title data)) [],
       room = or_default (data_room data) [],
       model = or_undefined (data_model data),
       price = number_or_undefined (data_price data),
       imgUrl = or_undefined (data_imgUrl data),
       link = or_undefined (data_link data),
       completed = truthy (data_completed data)\<rparr>)"

text \<open>The query of the subscription:
  \<open>query(collection(db, selectedCollection), orderBy('sort', 'asc'))\<close>.\<close>

datatype direction = Asc | Desc

definition subscription_query :: "App \<Rightarrow> string \<times> string \<times> direction" where
  "subscription_query st = (selectedCollection st, ''sort'', Asc)"

text \<open>The callback of \<open>onSnapshot\<close>: \<open>setTodos(snap.docs.map(...))\<close>.\<close>

definition onSnapshot :: "Doc list \<Rightarrow> App \<Rightarrow> App" where
  "onSnapshot docs st = st\<lparr>todos := map docToTodo docs\<rparr>"

section \<open>Toggle\<close>

text \<open>
  \<open>toggle(id)\<close>: looks the item up in \<open>todos\<close>, returns when it is not there, and
  otherwise calls \<open>updateDoc\<close> with the negated flag. It does not call \<open>setTodos\<close>.
  \<open>toggle_catch\<close> is the handler of the rejected promise:
  \<open>.catch(err => console.warn('toggle failed', err))\<close>.
\<close>

definition toggle :: "string \<Rightarrow> App \<Rightarrow> App \<times> effect list" where
  "toggle i st =
     (case find (\<lambda>t. todo_id t = i) (todos st) of
        None \<Rightarrow> (st, [])
      | Some t \<Rightarrow>
          (st, [UpdateDoc (selectedCollection st) i [(''completed'', VBool (\<not> completed t))]]))"

definition toggle_catch :: "App \<Rightarrow> App \<times> effect list" where
  "toggle_catch st = (st, [ConsoleWarn ''toggle failed''])"

text \<open>An effect that is a call of the remote store (and not a log line).\<close>

fun remote_call :: "effect \<Rightarrow> bool" where
  "remote_call (ConsoleWarn msg) = False"
| "remote_call e = True"

section \<open>The form\<close>

text \<open>\<open>String.prototype.trim\<close>: the white space and line terminators of ECMAScript
  that are 8-bit code units (TAB, LF, VT, FF, CR, SP, NBSP) are dropped at both ends.\<close>

definition isWhiteSpace :: "char \<Rightarrow> bool" where
  "isWhiteSpace c = (of_char c \<in> set [9, 10, 11, 12, 13, 32, 160 :: nat])"

definition trim :: "string \<Rightarrow> string" where
  "trim s = rev (dropWhile isWhiteSpace (rev (dropWhile isWhiteSpace s)))"

text \<open>\<open>isValidUrl\<close>: whether \<open>new URL(u)\<close> returns. The constructor is a parameter;
  \<open>None\<close> is the \<open>TypeError\<close> it throws.\<close>

definition isValidUrl :: "(string \<Rightarrow> 'u option) \<Rightarrow> string \<Rightarrow> bool" where
  "isValidUrl URL u = (case URL u of Some url \<Rightarrow> True | None \<Rightarrow> False)"

text \<open>\<open>Number.isNaN\<close>.\<close>

fun isNaN :: "jsnum \<Rightarrow> bool" where
  "isNaN NaN = True"
| "isNaN n = False"

text \<open>The object \<open>payloadUpdate\<close> of the edit branch.\<close>

definition payloadUpdate :: "string \<Rightarrow> string \<Rightarrow> string \<Rightarrow> string \<Rightarrow> jsnum \<Rightarrow> string \<Rightarrow> string \<Rightarrow> payload" where
  "payloadUpdate n rm m priceText p img lnk =
     [(''name'', VStr n),
      (''room'', VStr rm),
      (''model'', if m \<noteq> [] then VStr m else DeleteField),
      (''price'', if priceText \<noteq> [] then VNum p else DeleteField),
      (''imgUrl'', if img \<noteq> [] then VStr img else DeleteField),
      (''link'', if lnk \<noteq> [] then VStr lnk else DeleteField)]"

text \<open>The object \<open>{ ...payload, sort: todos.length }\<close> of the add branch.\<close>

definition payloadAdd :: "string \<Rightarrow> string \<Rightarrow> string \<Rightarrow> jsnum \<Rightarrow> string \<Rightarrow> string \<Rightarrow> nat \<Rightarrow> payload" where
  "payloadAdd n rm m p img lnk len =
     [(''name'', VStr n),
      (''room'', VStr rm),
      (''completed'', VBool False),
      (''createdAt'', ServerTimestamp)]
     @ (if m \<noteq> [] then [(''model'', VStr m)] else [])
     @ (if \<not> isNaN p then [(''price'', VNum p)] else [])
     @ (if img \<noteq> [] then [(''imgUrl'', VStr img)] else [])
     @ (if lnk \<noteq> [] then [(''link'', VStr lnk)] else [])
     @ [(''sort'', VNum (js_of_nat len))]"

text \<open>
  \<open>handleSubmit()\<close> up to its \<open>await\<close>: the four validations, each of which sets the error
  message and returns; then \<open>setError(null)\<close> and the call of \<open>updateDoc\<close> (when \<open>editId\<close>
  is truthy) or \<open>addDoc\<close>. \<open>Number.parseFloat\<close> and the constructor \<open>URL\<close> are parameters.
\<close>

definition handleSubmit ::
    "(string \<Rightarrow> jsnum) \<Rightarrow> (string \<Rightarrow> 'u option) \<Rightarrow> App \<Rightarrow> App \<times> effect list" where
  "handleSubmit parseFloat URL st =
     (let n = trim (form_name st);
          rm = trim (form_room st);
          m = trim (form_model st);
          priceText = trim (form_price st);
          p = (if priceText \<noteq> [] then parseFloat priceText else NaN);
          img = trim (form_imgUrl st);
          lnk = trim (form_link st)
      in
        if n = [] then (st\<lparr>error := Some ''Naziv je obavezan.''\<rparr>, [])
        else if rm = [] then (st\<lparr>error := Some ''Izaberite prostoriju.''\<rparr>, [])
        else if priceText \<noteq> [] \<and> isNaN p then
          (st\<lparr>error := Some ''Cena mora biti broj (ako je navedena).''\<rparr>, [])
        else if (img \<noteq> [] \<and> \<not> isValidUrl URL img) \<or> (lnk \<noteq> [] \<and> \<not> isValidUrl URL lnk) then
          (st\<lparr>error := Some ''Unesite ispravne URL-ove za sliku i link (ako su navedeni).''\<rparr>, [])
        else
          case editId st of
            None \<Rightarrow>
              (st\<lparr>error := None\<rparr>,
               [AddDoc (selectedCollection st) (payloadAdd n rm m p img lnk (length (todos st)))])
          | Some e \<Rightarrow>
              if e \<noteq> [] then
                (st\<lparr>error := None\<rparr>,
                 [UpdateDoc (selectedCollection st) e (payloadUpdate n rm m priceText p img lnk)])
              else
                (st\<lparr>error := None\<rparr>,
                 [AddDoc (selectedCollection st) (payloadAdd n rm m p img lnk (length (todos st)))]))"

text \<open>\<open>handleSubmit()\<close> after its \<open>await\<close>: \<open>closeModal()\<close> when the write went through,
  \<open>console.warn('submit failed', err)\<close> when it was rejected.\<close>

datatype outcome = Resolved | Rejected

definition closeModal :: "App \<Rightarrow> App" where
  "closeModal st = st\<lparr>modalOpen := False\<rparr>"

fun handleSubmit_settled :: "outcome \<Rightarrow> App \<Rightarrow> App \<times> effect list" where
  "handleSubmit_settled Resolved st = (closeModal st, [])"
| "handleSubmit_settled Rejected st = (st, [ConsoleWarn ''submit failed''])"

section \<open>Number.parseFloat\<close>

text \<open>
  \<open>Number.parseFloat\<close> of ECMAScript on 8-bit strings: leading white space is skipped and
  the longest prefix that is a \<open>StrDecimalLiteral\<close> is read (a sign, then \<open>Infinity\<close>, or
  digits with an optional fraction and exponent, or a fraction that starts with the
  point); what follows the prefix is ignored, and the result is \<open>NaN\<close> when there is no
  such prefix. The value is the exact decimal value: the rounding to a double is not
  modelled. Each function returns the value together with the text left over.
\<close>

definition isDigit :: "char \<Rightarrow> bool" where
  "isDigit c = (48 \<le> (of_char c :: nat) \<and> (of_char c :: nat) \<le> 57)"

definition digitsValue :: "string \<Rightarrow> nat" where
  "digitsValue ds = foldl (\<lambda>a c. 10 * a + (of_char c - 48)) 0 ds"

definition pow10 :: "int \<Rightarrow> real" where
  "pow10 e = (if 0 \<le> e then 10 ^ nat e else 1 / 10 ^ nat (- e))"

text \<open>\<open>ExponentPart\<close>: \<open>e\<close> or \<open>E\<close>, an optional sign and at least one digit; exponent 0 and
  the whole text when there is none.\<close>

definition exponentPart :: "string \<Rightarrow> int \<times> string" where
  "exponentPart s =
     (case s of
        [] \<Rightarrow> (0, s)
      | c # r \<Rightarrow>
          if c = CHR ''e'' \<or> c = CHR ''E'' then
            (case r of
               [] \<Rightarrow> (0, s)
             | sg # r' \<Rightarrow>
                 if (sg = CHR ''+'' \<or> sg = CHR ''-'') \<and> takeWhile isDigit r' \<noteq> [] then
                   (if sg = CHR ''-'' then - int (digitsValue (takeWhile isDigit r'))
                    else int (digitsValue (takeWhile isDigit r')),
                    dropWhile isDigit r')
                 else if takeWhile isDigit r \<noteq> [] then
                   (int (digitsValue (takeWhile isDigit r)), dropWhile isDigit r)
                 else (0, s))
          else (0, s))"

text \<open>The fraction after the point, with its exponent: the value to add and the rest.\<close>

definition fractionPart :: "string \<Rightarrow> real \<times> int \<times> string" where
  "fractionPart s =
     (case exponentPart (dropWhile isDigit s) of
        (e, rest) \<Rightarrow>
          (real (digitsValue (takeWhile isDigit s)) / 10 ^ length (takeWhile isDigit s), e, rest))"

definition strUnsignedDecimalLiteral :: "string \<Rightarrow> (jsnum \<times> string) option" where
  "strUnsignedDecimalLiteral s =
     (if take 8 s = ''Infinity'' then Some (PosInfinity, drop 8 s)
      else if takeWhile isDigit s \<noteq> [] then
        (case dropWhile isDigit s of
           [] \<Rightarrow> Some (Finite (real (digitsValue (takeWhile isDigit s))), [])
         | c # r \<Rightarrow>
             if c = CHR ''.'' then
               (case fractionPart r of
                  (f, e, rest) \<Rightarrow>
                    Some (Finite ((real (digitsValue (takeWhile isDigit s)) + f) * pow10 e), rest))
             else
               (case exponentPart (c # r) of
                  (e, rest) \<Rightarrow>
                    Some (Finite (real (digitsValue (takeWhile isDigit s)) * pow10 e), rest)))
      else
        (case s of
           [] \<Rightarrow> None
         | c # r \<Rightarrow>
             if c = CHR ''.'' \<and> takeWhile isDigit r \<noteq> [] then
               (case fractionPart r of (f, e, rest) \<Rightarrow> Some (Finite (f * pow10 e), rest))
             else None))"

fun negate :: "jsnum \<Rightarrow> jsnum" where
  "negate NaN = NaN"
| "negate PosInfinity = NegInfinity"
| "negate NegInfinity = PosInfinity"
| "negate (Finite r) = Finite (- r)"

definition strDecimalLiteral :: "string \<Rightarrow> (jsnum \<times> string) option" where
  "strDecimalLiteral s =
     (case s of
        [] \<Rightarrow> None
      | c # r \<Rightarrow>
          if c = CHR ''-'' then
            map_option (\<lambda>(v, rest). (negate v, rest)) (strUnsignedDecimalLiteral r)
          else if c = CHR ''+'' then strUnsignedDecimalLiteral r
          else strUnsignedDecimalLiteral s)"

definition parseFloat_js :: "string \<Rightarrow> jsnum" where
  "parseFloat_js s =
     (case strDecimalLiteral (dropWhile isWhiteSpace s) of
        None \<Rightarrow> NaN
      | Some (v, rest) \<Rightarrow> v)"

section \<open>The statements of the specification\<close>

text \<open>One item taken out at an index, and one put in at an index.\<close>

definition remove_at :: "nat \<Rightarrow> 'a list \<Rightarrow> 'a list" where
  "remove_at i xs = take i xs @ drop (Suc i) xs"

definition insert_at :: "nat \<Rightarrow> 'a \<Rightarrow> 'a list \<Rightarrow> 'a list" where
  "insert_at i x xs = take i xs @ x # drop i xs"

text \<open>The position of an item in a list is the index of its id; it has changed between
  two lists when the two indices differ.\<close>

definition position_of :: "string \<Rightarrow> Todo list \<Rightarrow> nat option" where
  "position_of i xs = findIndex (\<lambda>t. todo_id t = i) xs"

definition position_changed :: "Todo list \<Rightarrow> Todo list \<Rightarrow> string \<Rightarrow> bool" where
  "position_changed old new i = (position_of i old \<noteq> position_of i new)"

definition batch_ids :: "(string \<times> string \<times> payload) list \<Rightarrow> string list" where
  "batch_ids ops = map (\<lambda>(coll, i, p). i) ops"

text \<open>A batch is minimal when it writes exactly the items whose position has changed.\<close>

definition minimal_position_writes ::
    "Todo list \<Rightarrow> Todo list \<Rightarrow> (string \<times> string \<times> payload) list \<Rightarrow> bool" where
  "minimal_position_writes old new ops =
     list_all (\<lambda>t. (todo_id t \<in> set (batch_ids ops)) = position_changed old new (todo_id t)) new"

text \<open>A field is nullish when it is absent or \<open>null\<close>.\<close>

fun nullish :: "'a field \<Rightarrow> bool" where
  "nullish (Val v) = False"
| "nullish Undefined = True"
| "nullish Null = True"

text \<open>A text is numeric when all of it is a decimal number, with nothing left over.\<close>

definition numeric_text :: "string \<Rightarrow> bool" where
  "numeric_text s =
     (case strDecimalLiteral s of
        None \<Rightarrow> False
      | Some (v, rest) \<Rightarrow> rest = [])"

text \<open>
  Modelled from the spec: the optimistic update of \<open>toggle\<close> (section 4.2, "optimistic
  update applied immediately", and the \<open>update(collectionName, id, fieldChanges)\<close> of
  section 6). The client library of the store is not under \<open>src/\<close>. A write of
  \<open>completed\<close> is merged at once into the documents the client holds, and the
  subscription delivers them as a snapshot before the store has confirmed the write.
  Only the write that \<open>toggle\<close> issues is modelled: \<open>completed\<close> set to a boolean on the
  document with the given id.
\<close>

definition local_snapshot :: "string \<Rightarrow> bool \<Rightarrow> Doc list \<Rightarrow> Doc list" where
  "local_snapshot i b docs =
     map (\<lambda>d. if doc_id d = i
               then d\<lparr>doc_data := (doc_data d)\<lparr>data_completed := Val (JBool b)\<rparr>\<rparr>
               else d) docs"

text \<open>The four checks of \<open>handleSubmit\<close> as one predicate: what the code itself treats as
  invalid. The title or the room is empty after trimming, the price is given and
  \<open>Number.parseFloat\<close> returns \<open>NaN\<close> for it, or an address is given and the constructor
  \<open>URL\<close> throws.\<close>

definition invalid_input :: "(string \<Rightarrow> jsnum) \<Rightarrow> (string \<Rightarrow> 'u option) \<Rightarrow> App \<Rightarrow> bool" where
  "invalid_input parseFloat URL st =
     (trim (form_name st) = []
      \<or> trim (form_room st) = []
      \<or> (trim (form_price st) \<noteq> [] \<and> isNaN (parseFloat (trim (form_price st))))
      \<or> (trim (form_imgUrl st) \<noteq> [] \<and> URL (trim (form_imgUrl st)) = None)
      \<or> (trim (form_link st) \<noteq> [] \<and> URL (trim (form_link st)) = None))"

section \<open>Example data\<close>

definition item :: "string \<Rightarrow> Todo" where
  "item i = \<lparr>todo_id = i, name = i, room = ''Kuhinja'', model = None, price = None,
             imgUrl = None, link = None, completed = False\<rparr>"

text \<open>A list A, B, C with the card \<open>d\<close> being dragged, and an empty form.\<close>

definition abc_dragging :: "string option \<Rightarrow> App" where
  "abc_dragging d =
     \<lparr>todos = [item ''A'', item ''B'', item ''C''], selectedCollection = ''todos'',
      form_name = [], form_room = [], form_model = [], form_price = [], form_imgUrl = [],
      form_link = [], error = None, modalOpen = False, editId = None, draggingId = d\<rparr>"

text \<open>The same list with the form filled in; \<open>e\<close> is \<open>editId\<close>.\<close>

definition abc_form :: "string option \<Rightarrow> string \<Rightarrow> string \<Rightarrow> string \<Rightarrow> string \<Rightarrow> App" where
  "abc_form e n rm pr lnk =
     \<lparr>todos = [item ''A'', item ''B'', item ''C''], selectedCollection = ''todos'',
      form_name = n, form_room = rm, form_model = [], form_price = pr, form_imgUrl = [],
      form_link = lnk, error = None, modalOpen = True, editId = e, draggingId = None\<rparr>"

text \<open>Stand-ins for the two built-ins in the examples: \<open>Number.parseFloat\<close> on a string
  that starts with decimal digits (and \<open>NaN\<close> on any other), and a constructor \<open>URL\<close> that
  accepts what starts with \<open>https://\<close>.\<close>

definition parseFloat_digits :: "string \<Rightarrow> jsnum" where
  "parseFloat_digits s =
     (let ds = takeWhile (\<lambda>c. 48 \<le> (of_char c :: nat) \<and> (of_char c :: nat) \<le> 57) s
      in if ds = [] then NaN
         else Finite (real (foldl (\<lambda>a c. 10 * a + (of_char c - 48)) 0 ds)))"

definition URL_https :: "string \<Rightarrow> string option" where
  "URL_https u = (if take 8 u = ''https://'' \<and> 8 < length u then Some u else None)"

text \<open>Two documents of a snapshot: one written with the older field \<open>title\<close>, a price
  stored as a string and no \<open>completed\<close>; one with every field the form writes.\<close>

definition doc_title_only :: Doc where
  "doc_title_only =
     \<lparr>doc_id = ''d1'',
      doc_data = \<lparr>data_name = Undefined, data_title = Val ''Lamp'', data_room = Null,
                  data_model = Undefined, data_price = Val (JStr ''12''),
                  data_imgUrl = Null, data_link = Val ''https://example.com'',
                  data_completed = Undefined\<rparr>\<rparr>"

definition doc_full :: Doc where
  "doc_full =
     \<lparr>doc_id = ''d2'',
      doc_data = \<lparr>data_name = Val ''Dyson'', data_title = Val ''old'', data_room = Val ''Kuhinja'',
                  data_model = Val ''V15'', data_price = Val (JNum (Finite 299)),
                  data_imgUrl = Undefined, data_link = Undefined,
                  data_completed = Val (JBool True)\<rparr>\<rparr>"

text \<open>A state whose Local View was built from the snapshot of these two documents.\<close>

definition synced :: App where
  "synced = onSnapshot [doc_full, doc_title_only] (abc_dragging None)"

section \<open>Lists: moving one element\<close>

lemma findIndex_Some:
  "findIndex P xs = Some i \<Longrightarrow> i < length xs \<and> P (xs ! i)"
proof (induction xs arbitrary: i)
  case Nil
  then show ?case by simp
next
  case (Cons x xs)
  then show ?case by (cases "P x") (auto split: if_splits)
qed

lemma findIndex_None: "findIndex P xs = None \<longleftrightarrow> (\<forall>x \<in> set xs. \<not> P x)"
  by (induction xs) auto

lemma findIndex_id_in:
  "findIndex (\<lambda>t. todo_id t = i) xs = Some j \<Longrightarrow> i \<in> set (map todo_id xs)"
  using findIndex_Some[of "\<lambda>t. todo_id t = i" xs j] by (metis length_map nth_map nth_mem)

lemma length_move:
  "s < length xs \<Longrightarrow> k < length xs \<Longrightarrow> length (insert_at k x (remove_at s xs)) = length xs"
  by (auto simp: insert_at_def remove_at_def)

lemma move_nth:
  assumes "s < length xs" "k < length xs" "i < length xs"
  shows "insert_at k (xs ! s) (remove_at s xs) ! i =
     (if i = k then xs ! s
      else if s \<le> i \<and> i < k then xs ! Suc i
      else if k < i \<and> i \<le> s then xs ! (i - 1)
      else xs ! i)"
  using assms
  by (auto simp: insert_at_def remove_at_def nth_append min_def nth_Cons split: nat.splits
      intro!: arg_cong[where f="(!) xs"])

lemma mset_move:
  assumes "s < length xs"
  shows "mset (insert_at k (xs ! s) (remove_at s xs)) = mset xs"
proof -
  have "mset (insert_at k (xs ! s) (remove_at s xs)) = add_mset (xs ! s) (mset (remove_at s xs))"
    unfolding insert_at_def
    by (metis append_take_drop_id mset.simps(2) union_mset_add_mset_right mset_append)
  also have "\<dots> = mset (take s xs @ xs ! s # drop (Suc s) xs)"
    by (simp add: remove_at_def)
  also have "\<dots> = mset xs"
    using assms by (simp only: id_take_nth_drop[symmetric])
  finally show ?thesis .
qed

lemma sort_batch_length: "length (sort_batch coll xs) = length xs"
  by (simp add: sort_batch_def)

lemma sort_batch_nth:
  "i < length xs \<Longrightarrow>
   sort_batch coll xs ! i = (coll, todo_id (xs ! i), [(''sort'', VNum (js_of_nat i))])"
  by (simp add: sort_batch_def nth_enumerate_eq)

lemma batch_ids_sort_batch: "batch_ids (sort_batch coll xs) = map todo_id xs"
  by (rule nth_equalityI) (simp_all add: batch_ids_def sort_batch_def nth_enumerate_eq)

text \<open>What a drop does when it passes both guards: the dragged item is taken out at its
  index and put in at the index the target had, and one batch numbers the new list.\<close>

lemma onDropCard_move:
  assumes "draggingId st = Some d" "d \<noteq> []" "d \<noteq> targetId"
    "findIndex (\<lambda>t. todo_id t = d) (todos st) = Some s"
    "findIndex (\<lambda>t. todo_id t = targetId) (todos st) = Some k"
  shows "onDropCard targetId st =
     (st\<lparr>todos := insert_at k (todos st ! s) (remove_at s (todos st)), draggingId := None\<rparr>,
      [BatchCommit (sort_batch (selectedCollection st)
         (insert_at k (todos st ! s) (remove_at s (todos st))))])"
proof -
  have s: "s < length (todos st)" using findIndex_Some[OF assms(4)] by simp
  have "take 1 (take 1 (drop s (todos st))) = [todos st ! s]"
    using s by (simp add: Cons_nth_drop_Suc[symmetric])
  then show ?thesis using assms
    by (simp add: onDropCard_def splice_def insert_at_def remove_at_def Let_def)
qed

section \<open>Reordering by drag and drop\<close>

text \<open>
  Claim C1. A drop of the dragged card \<open>d\<close> on another card \<open>targetId\<close>, both in the list,
  at the indices \<open>srcIdx\<close> and \<open>dstIdx\<close>: the new Local View is the old list with the item
  removed at \<open>srcIdx\<close> and put back at \<open>dstIdx\<close>. It has the same items; the moved item
  stands at \<open>dstIdx\<close>, every item between the two indices has shifted by one place and
  every other item has kept its place. One batch is committed, with one update for each
  item of the new list, in order, writing \<open>sort\<close> equal to the item's 0-based index.
\<close>

theorem onDropCard_reorders:
  assumes "draggingId st = Some d" and "d \<noteq> []" and "d \<noteq> targetId"
    and "findIndex (\<lambda>t. todo_id t = d) (todos st) = Some srcIdx"
    and "findIndex (\<lambda>t. todo_id t = targetId) (todos st) = Some dstIdx"
  shows "\<exists>newList batch.
      onDropCard targetId st = (st\<lparr>todos := newList, draggingId := None\<rparr>, [BatchCommit batch])
    \<and> newList = insert_at dstIdx (todos st ! srcIdx) (remove_at srcIdx (todos st))
    \<and> length newList = length (todos st)
    \<and> mset newList = mset (todos st)
    \<and> (\<forall>i < length newList. newList ! i =
          (if i = dstIdx then todos st ! srcIdx
           else if srcIdx \<le> i \<and> i < dstIdx then todos st ! Suc i
           else if dstIdx < i \<and> i \<le> srcIdx then todos st ! (i - 1)
           else todos st ! i))
    \<and> length batch = length newList
    \<and> (\<forall>i < length newList.
          batch ! i = (selectedCollection st, todo_id (newList ! i), [(''sort'', VNum (js_of_nat i))]))"
proof -
  let ?new = "insert_at dstIdx (todos st ! srcIdx) (remove_at srcIdx (todos st))"
  have s: "srcIdx < length (todos st)" using findIndex_Some[OF assms(4)] by simp
  have k: "dstIdx < length (todos st)" using findIndex_Some[OF assms(5)] by simp
  have len: "length ?new = length (todos st)" using s k by (rule length_move)
  have "onDropCard targetId st =
      (st\<lparr>todos := ?new, draggingId := None\<rparr>, [BatchCommit (sort_batch (selectedCollection st) ?new)])"
    using assms by (rule onDropCard_move)
  moreover have "mset ?new = mset (todos st)" using s by (rule mset_move)
  moreover have "\<forall>i < length ?new. ?new ! i =
          (if i = dstIdx then todos st ! srcIdx
           else if srcIdx \<le> i \<and> i < dstIdx then todos st ! Suc i
           else if dstIdx < i \<and> i \<le> srcIdx then todos st ! (i - 1)
           else todos st ! i)"
    using s k len move_nth[of srcIdx "todos st" dstIdx] by simp
  moreover have "length (sort_batch (selectedCollection st) ?new) = length ?new"
    by (rule sort_batch_length)
  moreover have "\<forall>i < length ?new. sort_batch (selectedCollection st) ?new ! i =
      (selectedCollection st, todo_id (?new ! i), [(''sort'', VNum (js_of_nat i))])"
    by (simp add: sort_batch_nth)
  ultimately show ?thesis using len by blast
qed

text \<open>The scenario of the specification: A, B, C with C dropped on A (index 0) gives
  C, A, B and one batch of three updates, C = 0, A = 1, B = 2.\<close>

theorem onDropCard_reorders_witness:
  "draggingId (abc_dragging (Some ''C'')) = Some ''C'' \<and> ''C'' \<noteq> [] \<and> ''C'' \<noteq> ''A''
   \<and> findIndex (\<lambda>t. todo_id t = ''C'') (todos (abc_dragging (Some ''C''))) = Some 2
   \<and> findIndex (\<lambda>t. todo_id t = ''A'') (todos (abc_dragging (Some ''C''))) = Some 0
   \<and> onDropCard ''A'' (abc_dragging (Some ''C'')) =
       ((abc_dragging (Some ''C''))\<lparr>todos := [item ''C'', item ''A'', item ''B''], draggingId := None\<rparr>,
        [BatchCommit [(''todos'', ''C'', [(''sort'', VNum (js_of_nat 0))]),
                      (''todos'', ''A'', [(''sort'', VNum (js_of_nat 1))]),
                      (''todos'', ''B'', [(''sort'', VNum (js_of_nat 2))])]])"
proof -
  have h: "draggingId (abc_dragging (Some ''C'')) = Some ''C''" "''C'' \<noteq> []" "''C'' \<noteq> ''A''"
    "findIndex (\<lambda>t. todo_id t = ''C'') (todos (abc_dragging (Some ''C''))) = Some 2"
    "findIndex (\<lambda>t. todo_id t = ''A'') (todos (abc_dragging (Some ''C''))) = Some 0"
    by (simp_all add: abc_dragging_def item_def)
  from onDropCard_reorders[OF h] obtain newList batch where
    r: "onDropCard ''A'' (abc_dragging (Some ''C'')) =
          ((abc_dragging (Some ''C''))\<lparr>todos := newList, draggingId := None\<rparr>, [BatchCommit batch])"
    and n: "newList = insert_at 0 (todos (abc_dragging (Some ''C'')) ! 2) (remove_at 2 (todos (abc_dragging (Some ''C''))))"
    and l: "length batch = length newList"
    and b: "\<forall>i < length newList. batch ! i =
          (selectedCollection (abc_dragging (Some ''C'')), todo_id (newList ! i), [(''sort'', VNum (js_of_nat i))])"
    by blast
  have n': "newList = [item ''C'', item ''A'', item ''B'']"
    using n by (simp add: abc_dragging_def insert_at_def remove_at_def)
  have "batch = [(''todos'', ''C'', [(''sort'', VNum (js_of_nat 0))]),
                      (''todos'', ''A'', [(''sort'', VNum (js_of_nat 1))]),
                      (''todos'', ''B'', [(''sort'', VNum (js_of_nat 2))])]"
    using l b unfolding n'
    by (intro nth_equalityI) (auto simp: abc_dragging_def item_def less_Suc_eq numeral_3_eq_3 numeral_2_eq_2)
  with r n' h show ?thesis by simp
qed

lemma drop_C_on_B:
  "onDropCard ''B'' (abc_dragging (Some ''C'')) =
     ((abc_dragging (Some ''C''))\<lparr>todos := [item ''A'', item ''C'', item ''B''], draggingId := None\<rparr>,
      [BatchCommit [(''todos'', ''A'', [(''sort'', VNum (js_of_nat 0))]),
                    (''todos'', ''C'', [(''sort'', VNum (js_of_nat 1))]),
                    (''todos'', ''B'', [(''sort'', VNum (js_of_nat 2))])]])"
  by (simp add: onDropCard_def splice_def sort_batch_def abc_dragging_def item_def Let_def
      js_of_nat_def)

text \<open>
  Claim C2, as stated, fails: the batch is not the minimal set of writes. With A, B, C
  and C dropped on B, the item A is at index 0 before and after, and the batch still
  holds the update of A to 0.
\<close>

theorem onDropCard_batch_not_minimal:
  "\<not> minimal_position_writes
       (todos (abc_dragging (Some ''C'')))
       (todos (fst (onDropCard ''B'' (abc_dragging (Some ''C'')))))
       (sort_batch ''todos'' (todos (fst (onDropCard ''B'' (abc_dragging (Some ''C''))))))
   \<and> snd (onDropCard ''B'' (abc_dragging (Some ''C''))) =
       [BatchCommit (sort_batch ''todos'' (todos (fst (onDropCard ''B'' (abc_dragging (Some ''C''))))))]
   \<and> position_of ''A'' (todos (abc_dragging (Some ''C''))) = Some 0
   \<and> position_of ''A'' (todos (fst (onDropCard ''B'' (abc_dragging (Some ''C''))))) = Some 0
   \<and> sort_batch ''todos'' (todos (fst (onDropCard ''B'' (abc_dragging (Some ''C''))))) =
       [(''todos'', ''A'', [(''sort'', VNum (js_of_nat 0))]),
        (''todos'', ''C'', [(''sort'', VNum (js_of_nat 1))]),
        (''todos'', ''B'', [(''sort'', VNum (js_of_nat 2))])]"
  by (simp add: minimal_position_writes_def position_changed_def position_of_def batch_ids_def
      sort_batch_def onDropCard_def splice_def abc_dragging_def item_def js_of_nat_def Let_def)

text \<open>
  Claim C2, amended. The batch of a reorder holds one position update for every item of
  the new list, in the order of the list, whether the item's position has changed or
  not: the update at index \<open>k\<close> writes \<open>sort\<close> = \<open>k\<close>, and nothing else, to the item at index
  \<open>k\<close>. So every item whose position has changed is written.
\<close>

theorem onDropCard_writes_every_item:
  assumes "draggingId st = Some d" and "d \<noteq> []" and "d \<noteq> targetId"
    and "findIndex (\<lambda>t. todo_id t = d) (todos st) = Some srcIdx"
    and "findIndex (\<lambda>t. todo_id t = targetId) (todos st) = Some dstIdx"
  shows "\<exists>ops. snd (onDropCard targetId st) = [BatchCommit ops]
    \<and> batch_ids ops = map todo_id (todos (fst (onDropCard targetId st)))
    \<and> length ops = length (todos st)
    \<and> (\<forall>k < length ops.
          ops ! k = (selectedCollection st, todo_id (todos (fst (onDropCard targetId st)) ! k),
                     [(''sort'', VNum (js_of_nat k))]))
    \<and> (\<forall>i. position_changed (todos st) (todos (fst (onDropCard targetId st))) i
           \<longrightarrow> i \<in> set (batch_ids ops))"
proof -
  let ?new = "insert_at dstIdx (todos st ! srcIdx) (remove_at srcIdx (todos st))"
  let ?ops = "sort_batch (selectedCollection st) ?new"
  have s: "srcIdx < length (todos st)" using findIndex_Some[OF assms(4)] by simp
  have k: "dstIdx < length (todos st)" using findIndex_Some[OF assms(5)] by simp
  have r: "onDropCard targetId st = (st\<lparr>todos := ?new, draggingId := None\<rparr>, [BatchCommit ?ops])"
    using assms by (rule onDropCard_move)
  have ids: "batch_ids ?ops = map todo_id ?new" by (rule batch_ids_sort_batch)
  have same: "set (map todo_id ?new) = set (map todo_id (todos st))"
    using mset_move[OF s, of dstIdx] by (metis mset_map set_mset_mset)
  have "i \<in> set (batch_ids ?ops)" if c: "position_changed (todos st) ?new i" for i
  proof -
    from c have "position_of i (todos st) \<noteq> None \<or> position_of i ?new \<noteq> None"
      unfolding position_changed_def by auto
    then have "i \<in> set (map todo_id (todos st)) \<or> i \<in> set (map todo_id ?new)"
      unfolding position_of_def using findIndex_id_in by blast
    then show ?thesis using ids same by simp
  qed
  moreover have len: "length ?ops = length (todos st)"
    using s k by (simp add: sort_batch_length length_move)
  moreover have "\<forall>k < length ?ops.
      ?ops ! k = (selectedCollection st, todo_id (?new ! k), [(''sort'', VNum (js_of_nat k))])"
    by (simp add: sort_batch_length sort_batch_nth)
  ultimately show ?thesis using r ids by simp
qed

theorem onDropCard_writes_every_item_witness:
  "draggingId (abc_dragging (Some ''C'')) = Some ''C'' \<and> ''C'' \<noteq> [] \<and> ''C'' \<noteq> ''B''
   \<and> findIndex (\<lambda>t. todo_id t = ''C'') (todos (abc_dragging (Some ''C''))) = Some 2
   \<and> findIndex (\<lambda>t. todo_id t = ''B'') (todos (abc_dragging (Some ''C''))) = Some 1
   \<and> snd (onDropCard ''B'' (abc_dragging (Some ''C''))) =
       [BatchCommit [(''todos'', ''A'', [(''sort'', VNum (js_of_nat 0))]),
                     (''todos'', ''C'', [(''sort'', VNum (js_of_nat 1))]),
                     (''todos'', ''B'', [(''sort'', VNum (js_of_nat 2))])]]
   \<and> (\<exists>ops. snd (onDropCard ''B'' (abc_dragging (Some ''C''))) = [BatchCommit ops]
        \<and> batch_ids ops = [''A'', ''C'', ''B''] \<and> length ops = 3
        \<and> ops ! 0 = (''todos'', ''A'', [(''sort'', VNum (js_of_nat 0))]))"
proof -
  have h: "draggingId (abc_dragging (Some ''C'')) = Some ''C''" "''C'' \<noteq> []" "''C'' \<noteq> ''B''"
    "findIndex (\<lambda>t. todo_id t = ''C'') (todos (abc_dragging (Some ''C''))) = Some 2"
    "findIndex (\<lambda>t. todo_id t = ''B'') (todos (abc_dragging (Some ''C''))) = Some 1"
    by (simp_all add: abc_dragging_def item_def)
  have t: "map todo_id (todos (fst (onDropCard ''B'' (abc_dragging (Some ''C''))))) = [''A'', ''C'', ''B'']"
    "todo_id (todos (fst (onDropCard ''B'' (abc_dragging (Some ''C'')))) ! 0) = ''A''"
    by (simp_all add: drop_C_on_B item_def)
  have l: "length (todos (abc_dragging (Some ''C''))) = 3"
    "selectedCollection (abc_dragging (Some ''C'')) = ''todos''"
    by (simp_all add: abc_dragging_def)
  from onDropCard_writes_every_item[OF h] obtain ops where
    o1: "snd (onDropCard ''B'' (abc_dragging (Some ''C''))) = [BatchCommit ops]"
    and o2: "batch_ids ops = map todo_id (todos (fst (onDropCard ''B'' (abc_dragging (Some ''C'')))))"
    and o3: "length ops = length (todos (abc_dragging (Some ''C'')))"
    and o4: "\<forall>k < length ops.
          ops ! k = (selectedCollection (abc_dragging (Some ''C'')),
                     todo_id (todos (fst (onDropCard ''B'' (abc_dragging (Some ''C'')))) ! k),
                     [(''sort'', VNum (js_of_nat k))])"
    by (elim exE conjE)
  from o4 o3 have o5: "ops ! 0 = (''todos'', ''A'', [(''sort'', VNum (js_of_nat 0))])"
    unfolding l t(2)[symmetric] by simp
  have e: "\<exists>ops. snd (onDropCard ''B'' (abc_dragging (Some ''C''))) = [BatchCommit ops]
        \<and> batch_ids ops = [''A'', ''C'', ''B''] \<and> length ops = 3
        \<and> ops ! 0 = (''todos'', ''A'', [(''sort'', VNum (js_of_nat 0))])"
    using o1 o2[unfolded t] o3[unfolded l] o5 by (intro exI[of _ ops] conjI)
  have b: "snd (onDropCard ''B'' (abc_dragging (Some ''C''))) =
       [BatchCommit [(''todos'', ''A'', [(''sort'', VNum (js_of_nat 0))]),
                     (''todos'', ''C'', [(''sort'', VNum (js_of_nat 1))]),
                     (''todos'', ''B'', [(''sort'', VNum (js_of_nat 2))])]]"
    by (simp add: drop_C_on_B)
  show ?thesis using h b e by (intro conjI)
qed

text \<open>
  Claim C5, as stated, fails for the gesture as the code receives it (the dragged card and
  the card it is dropped on). With A, B, C, dropping C on A gives C, A, B; dragging C
  again and dropping it on A again gives A, C, B, with a second batch.
\<close>

theorem onDropCard_twice_moves_again:
  "todos (fst (onDropCard ''A'' (abc_dragging (Some ''C'')))) = [item ''C'', item ''A'', item ''B'']
   \<and> todos (fst (onDropCard ''A''
        (onDragStartCard ''C'' (fst (onDropCard ''A'' (abc_dragging (Some ''C''))))))) =
       [item ''A'', item ''C'', item ''B'']
   \<and> snd (onDropCard ''A''
        (onDragStartCard ''C'' (fst (onDropCard ''A'' (abc_dragging (Some ''C'')))))) =
       [BatchCommit [(''todos'', ''A'', [(''sort'', VNum (js_of_nat 0))]),
                     (''todos'', ''C'', [(''sort'', VNum (js_of_nat 1))]),
                     (''todos'', ''B'', [(''sort'', VNum (js_of_nat 2))])]]
   \<and> todos (fst (onDropCard ''A''
        (onDragStartCard ''C'' (fst (onDropCard ''A'' (abc_dragging (Some ''C''))))))) \<noteq>
       todos (fst (onDropCard ''A'' (abc_dragging (Some ''C''))))"
  by (simp add: onDropCard_def onDragStartCard_def splice_def sort_batch_def abc_dragging_def
      item_def js_of_nat_def Let_def)

text \<open>
  Claim C5, amended. After a reorder the moved item stands at the destination index.
  Dragging it again and dropping it at that index is a drop on itself: it changes no
  position and commits no batch.
\<close>

theorem onDropCard_again_at_destination:
  assumes "draggingId st = Some d" and "d \<noteq> []" and "d \<noteq> targetId"
    and "findIndex (\<lambda>t. todo_id t = d) (todos st) = Some srcIdx"
    and "findIndex (\<lambda>t. todo_id t = targetId) (todos st) = Some dstIdx"
  shows "todo_id (todos (fst (onDropCard targetId st)) ! dstIdx) = d
    \<and> dstIdx < length (todos (fst (onDropCard targetId st)))
    \<and> onDropCard (todo_id (todos (fst (onDropCard targetId st)) ! dstIdx))
          (onDragStartCard d (fst (onDropCard targetId st)))
        = (onDragStartCard d (fst (onDropCard targetId st)), [])"
proof -
  let ?new = "insert_at dstIdx (todos st ! srcIdx) (remove_at srcIdx (todos st))"
  have s: "srcIdx < length (todos st)" "todo_id (todos st ! srcIdx) = d"
    using findIndex_Some[OF assms(4)] by simp_all
  have k: "dstIdx < length (todos st)" using findIndex_Some[OF assms(5)] by simp
  have r: "fst (onDropCard targetId st) = st\<lparr>todos := ?new, draggingId := None\<rparr>"
    using onDropCard_move[OF assms] by simp
  have at: "?new ! dstIdx = todos st ! srcIdx"
    using move_nth[OF s(1) k k] by simp
  have len: "length ?new = length (todos st)" using s(1) k by (rule length_move)
  have "onDropCard d (onDragStartCard d (fst (onDropCard targetId st)))
      = (onDragStartCard d (fst (onDropCard targetId st)), [])"
    by (simp add: onDropCard_def onDragStartCard_def)
  then show ?thesis using r at s(2) k len by simp
qed

theorem onDropCard_again_at_destination_witness:
  "draggingId (abc_dragging (Some ''C'')) = Some ''C'' \<and> ''C'' \<noteq> [] \<and> ''C'' \<noteq> ''A''
   \<and> findIndex (\<lambda>t. todo_id t = ''C'') (todos (abc_dragging (Some ''C''))) = Some 2
   \<and> findIndex (\<lambda>t. todo_id t = ''A'') (todos (abc_dragging (Some ''C''))) = Some 0
   \<and> todo_id (todos (fst (onDropCard ''A'' (abc_dragging (Some ''C'')))) ! 0) = ''C''
   \<and> onDropCard ''C'' (onDragStartCard ''C'' (fst (onDropCard ''A'' (abc_dragging (Some ''C'')))))
        = (onDragStartCard ''C'' (fst (onDropCard ''A'' (abc_dragging (Some ''C'')))), [])"
proof -
  have h: "draggingId (abc_dragging (Some ''C'')) = Some ''C''" "''C'' \<noteq> []" "''C'' \<noteq> ''A''"
    "findIndex (\<lambda>t. todo_id t = ''C'') (todos (abc_dragging (Some ''C''))) = Some 2"
    "findIndex (\<lambda>t. todo_id t = ''A'') (todos (abc_dragging (Some ''C''))) = Some 0"
    by (simp_all add: abc_dragging_def item_def)
  from onDropCard_again_at_destination[OF h]
  have a: "todo_id (todos (fst (onDropCard ''A'' (abc_dragging (Some ''C'')))) ! 0) = ''C''"
    and b: "onDropCard (todo_id (todos (fst (onDropCard ''A'' (abc_dragging (Some ''C'')))) ! 0))
          (onDragStartCard ''C'' (fst (onDropCard ''A'' (abc_dragging (Some ''C'')))))
        = (onDragStartCard ''C'' (fst (onDropCard ''A'' (abc_dragging (Some ''C'')))), [])"
    by blast+
  from b have "onDropCard ''C'' (onDragStartCard ''C'' (fst (onDropCard ''A'' (abc_dragging (Some ''C'')))))
        = (onDragStartCard ''C'' (fst (onDropCard ''A'' (abc_dragging (Some ''C'')))), [])"
    unfolding a .
  with h a show ?thesis by blast
qed

text \<open>
  Claim C9. A drop changes nothing and writes nothing when no drag is in progress
  (\<open>draggingId\<close> is \<open>null\<close> or empty), when the card is dropped on itself, or when the
  dragged id or the target id is not in the list.
\<close>

theorem onDropCard_noop:
  "(draggingId st = None \<longrightarrow> onDropCard targetId st = (st, []))
   \<and> (draggingId st = Some [] \<longrightarrow> onDropCard targetId st = (st, []))
   \<and> (draggingId st = Some targetId \<longrightarrow> onDropCard targetId st = (st, []))
   \<and> (draggingId st = Some d \<and> d \<notin> set (map todo_id (todos st))
        \<longrightarrow> onDropCard targetId st = (st, []))
   \<and> (targetId \<notin> set (map todo_id (todos st)) \<longrightarrow> onDropCard targetId st = (st, []))"
proof -
  have absent: "findIndex (\<lambda>t. todo_id t = i) xs = None" if "i \<notin> set (map todo_id xs)" for i xs
    using that by (auto simp: findIndex_None)
  have "onDropCard targetId st = (st, [])" if "draggingId st = None"
    using that by (simp add: onDropCard_def)
  moreover have "onDropCard targetId st = (st, [])" if "draggingId st = Some []"
    using that by (simp add: onDropCard_def)
  moreover have "onDropCard targetId st = (st, [])" if "draggingId st = Some targetId"
    using that by (simp add: onDropCard_def)
  moreover have "onDropCard targetId st = (st, [])"
    if "draggingId st = Some d" "d \<notin> set (map todo_id (todos st))"
    using that absent[of d "todos st"] by (simp add: onDropCard_def)
  moreover have "onDropCard targetId st = (st, [])" if "targetId \<notin> set (map todo_id (todos st))"
    using absent[OF that] by (simp add: onDropCard_def split: option.splits)
  ultimately show ?thesis by blast
qed

theorem onDropCard_noop_witness:
  "onDropCard ''A'' (abc_dragging None) = (abc_dragging None, [])
   \<and> onDropCard ''A'' (abc_dragging (Some [])) = (abc_dragging (Some []), [])
   \<and> onDropCard ''A'' (abc_dragging (Some ''A'')) = (abc_dragging (Some ''A''), [])
   \<and> onDropCard ''A'' (abc_dragging (Some ''Z'')) = (abc_dragging (Some ''Z''), [])
   \<and> onDropCard ''Z'' (abc_dragging (Some ''A'')) = (abc_dragging (Some ''A''), [])"
proof -
  have "draggingId (abc_dragging d) = d" for d by (simp add: abc_dragging_def)
  moreover have "''Z'' \<notin> set (map todo_id (todos (abc_dragging d)))" for d
    by (simp add: abc_dragging_def item_def)
  ultimately show ?thesis
    using onDropCard_noop[of "abc_dragging None" "''A''"]
      onDropCard_noop[of "abc_dragging (Some [])" "''A''"]
      onDropCard_noop[of "abc_dragging (Some ''A'')" "''A''"]
      onDropCard_noop[of "abc_dragging (Some ''Z'')" "''A''" "''Z''"]
      onDropCard_noop[of "abc_dragging (Some ''A'')" "''Z''"]
    by simp
qed

section \<open>Toggle and the local snapshot\<close>

lemma find_id_Some:
  "i \<in> set (map todo_id xs) \<Longrightarrow> \<exists>t. find (\<lambda>t. todo_id t = i) xs = Some t \<and> t \<in> set xs \<and> todo_id t = i"
  by (induction xs) auto

lemma docToTodo_set_completed:
  "docToTodo (d\<lparr>doc_data := (doc_data d)\<lparr>data_completed := Val (JBool b)\<rparr>\<rparr>)
     = (docToTodo d)\<lparr>completed := b\<rparr>"
  by (simp add: docToTodo_def Let_def)

lemma todo_id_docToTodo: "todo_id (docToTodo d) = doc_id d"
  by (simp add: docToTodo_def Let_def)

lemma find_unique:
  assumes "distinct (map todo_id xs)" and "find (\<lambda>t. todo_id t = i) xs = Some t"
    and "u \<in> set xs" and "todo_id u = i"
  shows "u = t"
proof -
  from assms(2) have "t \<in> set xs" and "todo_id t = i"
    by (auto simp: find_Some_iff)
  moreover from assms(1) have "inj_on todo_id (set xs)" by (simp add: distinct_map)
  ultimately show ?thesis using assms(3,4) by (auto dest: inj_onD)
qed

lemma synced_todos: "todos synced = map docToTodo [doc_full, doc_title_only]"
  by (simp add: synced_def onSnapshot_def)

lemma synced_view:
  "todos synced =
     [\<lparr>todo_id = ''d2'', name = ''Dyson'', room = ''Kuhinja'', model = Some ''V15'',
       price = Some (Finite 299), imgUrl = None, link = None, completed = True\<rparr>,
      \<lparr>todo_id = ''d1'', name = ''Lamp'', room = [], model = None, price = None,
       imgUrl = None, link = Some ''https://example.com'', completed = False\<rparr>]"
  by (simp add: synced_def onSnapshot_def docToTodo_def doc_full_def doc_title_only_def Let_def)

lemma synced_toggle:
  "toggle ''d1'' synced = (synced, [UpdateDoc ''todos'' ''d1'' [(''completed'', VBool True)]])"
  unfolding toggle_def synced_view
  by (simp add: synced_def onSnapshot_def abc_dragging_def)

lemma synced_flipped:
  "todos (onSnapshot (local_snapshot ''d1'' True [doc_full, doc_title_only]) (fst (toggle ''d1'' synced)))
     = [\<lparr>todo_id = ''d2'', name = ''Dyson'', room = ''Kuhinja'', model = Some ''V15'',
         price = Some (Finite 299), imgUrl = None, link = None, completed = True\<rparr>,
        \<lparr>todo_id = ''d1'', name = ''Lamp'', room = [], model = None, price = None,
         imgUrl = None, link = Some ''https://example.com'', completed = True\<rparr>]"
  by (simp add: onSnapshot_def local_snapshot_def docToTodo_def doc_full_def doc_title_only_def
      Let_def)

text \<open>
  Claim C3. For an item id present in the Local View, \<open>toggle\<close> returns at once with the
  Local View as it is and one remote update that sets \<open>completed\<close> to the negation of the
  item's flag. The snapshot of the client's own documents with that write merged in,
  which arrives before any confirmation of the store, flips the flag of that item in the
  Local View and changes nothing else. When the write fails, the handler only logs
  \<open>toggle failed\<close>: it changes no state and issues no remote call, so nothing is retried.
  The Local View is taken to be in step with the documents the client holds, whose ids
  are distinct.
\<close>

theorem toggle_flips_local_view:
  assumes "todos st = map docToTodo docs" and "distinct (map doc_id docs)"
    and "i \<in> set (map todo_id (todos st))"
  shows "\<exists>t. find (\<lambda>t. todo_id t = i) (todos st) = Some t
    \<and> toggle i st =
        (st, [UpdateDoc (selectedCollection st) i [(''completed'', VBool (\<not> completed t))]])
    \<and> todos (onSnapshot (local_snapshot i (\<not> completed t) docs) (fst (toggle i st)))
        = map (\<lambda>u. if todo_id u = i then u\<lparr>completed := \<not> completed u\<rparr> else u) (todos st)
    \<and> toggle_catch (onSnapshot (local_snapshot i (\<not> completed t) docs) (fst (toggle i st)))
        = (onSnapshot (local_snapshot i (\<not> completed t) docs) (fst (toggle i st)),
           [ConsoleWarn ''toggle failed''])
    \<and> filter remote_call
         (snd (toggle_catch (onSnapshot (local_snapshot i (\<not> completed t) docs) (fst (toggle i st)))))
        = []"
proof -
  from find_id_Some[OF assms(3)] obtain t where t: "find (\<lambda>t. todo_id t = i) (todos st) = Some t"
    by blast
  have tg: "toggle i st =
        (st, [UpdateDoc (selectedCollection st) i [(''completed'', VBool (\<not> completed t))]])"
    using t by (simp add: toggle_def)
  have ti: "todo_id t = i" using t by (auto simp: find_Some_iff)
  have dist: "distinct (map todo_id (todos st))"
    using assms(1,2) by (simp add: comp_def todo_id_docToTodo)
  have one: "docToTodo (if doc_id d = i
                 then d\<lparr>doc_data := (doc_data d)\<lparr>data_completed := Val (JBool (\<not> completed t))\<rparr>\<rparr>
                 else d)
       = (if todo_id (docToTodo d) = i then (docToTodo d)\<lparr>completed := \<not> completed (docToTodo d)\<rparr>
          else docToTodo d)" if "d \<in> set docs" for d
  proof (cases "doc_id d = i")
    case True
    have "docToTodo d \<in> set (todos st)" using that assms(1) by simp
    then have "docToTodo d = t"
      using find_unique[OF dist t] True by (simp add: todo_id_docToTodo)
    then show ?thesis using True ti by (simp add: docToTodo_set_completed todo_id_docToTodo)
  next
    case False
    then show ?thesis by (simp add: todo_id_docToTodo)
  qed
  have flip: "todos (onSnapshot (local_snapshot i (\<not> completed t) docs) (fst (toggle i st)))
        = map (\<lambda>u. if todo_id u = i then u\<lparr>completed := \<not> completed u\<rparr> else u) (todos st)"
    unfolding assms(1) onSnapshot_def local_snapshot_def
    using one by (simp add: comp_def)
  show ?thesis
    using t tg flip by (intro exI[of _ t] conjI) (simp_all add: toggle_catch_def)
qed

theorem toggle_flips_local_view_witness:
  "todos synced = map docToTodo [doc_full, doc_title_only]
   \<and> distinct (map doc_id [doc_full, doc_title_only])
   \<and> ''d1'' \<in> set (map todo_id (todos synced))
   \<and> map completed (todos synced) = [True, False]
   \<and> toggle ''d1'' synced = (synced, [UpdateDoc ''todos'' ''d1'' [(''completed'', VBool True)]])
   \<and> map completed
        (todos (onSnapshot (local_snapshot ''d1'' True [doc_full, doc_title_only])
                  (fst (toggle ''d1'' synced)))) = [True, True]
   \<and> (\<exists>t. find (\<lambda>t. todo_id t = ''d1'') (todos synced) = Some t
         \<and> todos (onSnapshot (local_snapshot ''d1'' (\<not> completed t) [doc_full, doc_title_only])
                    (fst (toggle ''d1'' synced)))
            = map (\<lambda>u. if todo_id u = ''d1'' then u\<lparr>completed := \<not> completed u\<rparr> else u)
                (todos synced))"
proof -
  have h1: "todos synced = map docToTodo [doc_full, doc_title_only]" by (rule synced_todos)
  have h2: "distinct (map doc_id [doc_full, doc_title_only])"
    by (simp add: doc_full_def doc_title_only_def)
  have h3: "''d1'' \<in> set (map todo_id (todos synced))" by (simp add: synced_view)
  have c: "map completed (todos synced) = [True, False]" by (simp add: synced_view)
  have f: "map completed
        (todos (onSnapshot (local_snapshot ''d1'' True [doc_full, doc_title_only])
                  (fst (toggle ''d1'' synced)))) = [True, True]"
    by (simp add: synced_flipped)
  from toggle_flips_local_view[OF h1 h2 h3]
  have e: "\<exists>t. find (\<lambda>t. todo_id t = ''d1'') (todos synced) = Some t
         \<and> todos (onSnapshot (local_snapshot ''d1'' (\<not> completed t) [doc_full, doc_title_only])
                    (fst (toggle ''d1'' synced)))
            = map (\<lambda>u. if todo_id u = ''d1'' then u\<lparr>completed := \<not> completed u\<rparr> else u)
                (todos synced)"
    by (elim exE conjE) (intro exI conjI, assumption+)
  show ?thesis using h1 h2 h3 c synced_toggle f e by (intro conjI)
qed

section \<open>What a snapshot does to the Local View\<close>

text \<open>
  Claim C4. The subscription asks for the selected collection ordered by \<open>sort\<close>,
  ascending. Processing a snapshot replaces the whole Local View with the snapshot's
  documents, mapped one by one and kept in the snapshot's order. The result does not
  depend on the Local View before: whatever a reorder, a toggle or a submission left
  there is overwritten.
\<close>

theorem onSnapshot_replaces_view:
  "subscription_query st = (selectedCollection st, ''sort'', Asc)
   \<and> todos (onSnapshot docs st) = map docToTodo docs
   \<and> map todo_id (todos (onSnapshot docs st)) = map doc_id docs
   \<and> length (todos (onSnapshot docs st)) = length docs
   \<and> onSnapshot docs (st\<lparr>todos := local\<rparr>) = onSnapshot docs st
   \<and> todos (onSnapshot docs (fst (onDropCard targetId st))) = map docToTodo docs
   \<and> todos (onSnapshot docs (fst (toggle i st))) = map docToTodo docs
   \<and> todos (onSnapshot docs (fst (handleSubmit parseFloat URL st))) = map docToTodo docs"
  by (simp add: subscription_query_def onSnapshot_def docToTodo_def Let_def comp_def)

theorem onSnapshot_replaces_view_witness:
  "todos (fst (onDropCard ''A'' (abc_dragging (Some ''C'')))) = [item ''C'', item ''A'', item ''B'']
   \<and> todos (onSnapshot [doc_full, doc_title_only] (fst (onDropCard ''A'' (abc_dragging (Some ''C'')))))
       = [docToTodo doc_full, docToTodo doc_title_only]
   \<and> map todo_id (todos (onSnapshot [doc_full, doc_title_only] (abc_dragging (Some ''C''))))
       = [''d2'', ''d1'']"
proof -
  note t = onSnapshot_replaces_view[of "abc_dragging (Some ''C'')" "[doc_full, doc_title_only]"
      "[]" "''A''" "''A''" parseFloat_digits URL_https]
  have a: "todos (fst (onDropCard ''A'' (abc_dragging (Some ''C'')))) = [item ''C'', item ''A'', item ''B'']"
    by (simp add: onDropCard_def splice_def abc_dragging_def Let_def item_def)
  have b: "todos (onSnapshot [doc_full, doc_title_only] (fst (onDropCard ''A'' (abc_dragging (Some ''C'')))))
       = [docToTodo doc_full, docToTodo doc_title_only]"
    using t[THEN conjunct2, THEN conjunct2, THEN conjunct2, THEN conjunct2, THEN conjunct2,
        THEN conjunct1]
    by simp
  have c: "map todo_id (todos (onSnapshot [doc_full, doc_title_only] (abc_dragging (Some ''C''))))
       = [''d2'', ''d1'']"
    using t[THEN conjunct2, THEN conjunct2, THEN conjunct1]
    by (simp add: doc_full_def doc_title_only_def)
  show ?thesis using a b c by (intro conjI)
qed

text \<open>
  Claim C10. The mapping of a document to an item is a total function with these
  defaults: the name is the field \<open>name\<close>, else the field \<open>title\<close>, else the empty string
  (a field that is absent or \<open>null\<close> falls through); \<open>completed\<close> is the truthiness of the
  stored value, \<open>False\<close> when it is absent; \<open>price\<close> is kept exactly when the stored
  value is a number; \<open>model\<close>, \<open>imgUrl\<close> and \<open>link\<close> are absent on the item exactly when they
  are absent or \<open>null\<close> in the document.
\<close>

theorem docToTodo_defaults:
  "todo_id (docToTodo d) = doc_id d
   \<and> (data_name (doc_data d) = Val s \<longrightarrow> name (docToTodo d) = s)
   \<and> (nullish (data_name (doc_data d)) \<and> data_title (doc_data d) = Val s
        \<longrightarrow> name (docToTodo d) = s)
   \<and> (nullish (data_name (doc_data d)) \<and> nullish (data_title (doc_data d))
        \<longrightarrow> name (docToTodo d) = [])
   \<and> (nullish (data_room (doc_data d)) \<longrightarrow> room (docToTodo d) = [])
   \<and> (nullish (data_completed (doc_data d)) \<longrightarrow> completed (docToTodo d) = False)
   \<and> (data_completed (doc_data d) = Val (JBool b) \<longrightarrow> completed (docToTodo d) = b)
   \<and> completed (docToTodo d) = truthy (data_completed (doc_data d))
   \<and> (price (docToTodo d) = Some n \<longleftrightarrow> data_price (doc_data d) = Val (JNum n))
   \<and> (price (docToTodo d) = None \<longleftrightarrow> (\<forall>k. data_price (doc_data d) \<noteq> Val (JNum k)))
   \<and> (model (docToTodo d) = None \<longleftrightarrow> nullish (data_model (doc_data d)))
   \<and> (imgUrl (docToTodo d) = None \<longleftrightarrow> nullish (data_imgUrl (doc_data d)))
   \<and> (link (docToTodo d) = None \<longleftrightarrow> nullish (data_link (doc_data d)))
   \<and> (model (docToTodo d) = Some s \<longleftrightarrow> data_model (doc_data d) = Val s)
   \<and> (imgUrl (docToTodo d) = Some s \<longleftrightarrow> data_imgUrl (doc_data d) = Val s)
   \<and> (link (docToTodo d) = Some s \<longleftrightarrow> data_link (doc_data d) = Val s)"
proof -
  have nm: "name (docToTodo d) = or_default (coalesce (data_name (doc_data d)) (data_title (doc_data d))) []"
    and rm: "room (docToTodo d) = or_default (data_room (doc_data d)) []"
    and md: "model (docToTodo d) = or_undefined (data_model (doc_data d))"
    and pr: "price (docToTodo d) = number_or_undefined (data_price (doc_data d))"
    and im: "imgUrl (docToTodo d) = or_undefined (data_imgUrl (doc_data d))"
    and lk: "link (docToTodo d) = or_undefined (data_link (doc_data d))"
    and cp: "completed (docToTodo d) = truthy (data_completed (doc_data d))"
    and ii: "todo_id (docToTodo d) = doc_id d"
    by (simp_all add: docToTodo_def Let_def)
  have ou: "(or_undefined x = None) = nullish x" "(or_undefined x = Some s) = (x = Val s)"
    for x :: "string field"
    by (cases x; simp)+
  have nu: "(number_or_undefined y = Some n) = (y = Val (JNum n))"
    "(number_or_undefined y = None) = (\<forall>k. y \<noteq> Val (JNum k))" for y
    by (cases y rule: number_or_undefined.cases; simp)+
  have n1: "data_name (doc_data d) = Val s \<longrightarrow> name (docToTodo d) = s"
    by (simp add: nm)
  have n2: "nullish (data_name (doc_data d)) \<and> data_title (doc_data d) = Val s
        \<longrightarrow> name (docToTodo d) = s"
    unfolding nm by (cases "data_name (doc_data d)") simp_all
  have n3: "nullish (data_name (doc_data d)) \<and> nullish (data_title (doc_data d))
        \<longrightarrow> name (docToTodo d) = []"
    unfolding nm by (cases "data_name (doc_data d)"; cases "data_title (doc_data d)") simp_all
  have r1: "nullish (data_room (doc_data d)) \<longrightarrow> room (docToTodo d) = []"
    unfolding rm by (cases "data_room (doc_data d)") simp_all
  have c1: "nullish (data_completed (doc_data d)) \<longrightarrow> completed (docToTodo d) = False"
    unfolding cp by (cases "data_completed (doc_data d)") simp_all
  have c2: "data_completed (doc_data d) = Val (JBool b) \<longrightarrow> completed (docToTodo d) = b"
    by (simp add: cp)
  show ?thesis
    unfolding md pr im lk ou nu
    using ii n1 n2 n3 r1 c1 c2 cp by (intro conjI refl)
qed

theorem docToTodo_defaults_witness:
  "nullish (data_name (doc_data doc_title_only))
   \<and> data_title (doc_data doc_title_only) = Val ''Lamp''
   \<and> name (docToTodo doc_title_only) = ''Lamp''
   \<and> nullish (data_completed (doc_data doc_title_only))
   \<and> completed (docToTodo doc_title_only) = False
   \<and> data_price (doc_data doc_title_only) = Val (JStr ''12'')
   \<and> docToTodo doc_title_only =
       \<lparr>todo_id = ''d1'', name = ''Lamp'', room = [], model = None, price = None,
        imgUrl = None, link = Some ''https://example.com'', completed = False\<rparr>
   \<and> docToTodo doc_full =
       \<lparr>todo_id = ''d2'', name = ''Dyson'', room = ''Kuhinja'', model = Some ''V15'',
        price = Some (Finite 299), imgUrl = None, link = None, completed = True\<rparr>"
proof -
  have h1: "nullish (data_name (doc_data doc_title_only))"
    and h2: "data_title (doc_data doc_title_only) = Val ''Lamp''"
    and h3: "nullish (data_completed (doc_data doc_title_only))"
    and h4: "data_price (doc_data doc_title_only) = Val (JStr ''12'')"
    by (simp_all add: doc_title_only_def)
  note t = docToTodo_defaults[of doc_title_only "''Lamp''" False NaN]
  have a: "name (docToTodo doc_title_only) = ''Lamp''"
    by (rule t[THEN conjunct2, THEN conjunct2, THEN conjunct1, THEN mp, OF conjI[OF h1 h2]])
  have b: "completed (docToTodo doc_title_only) = False"
    by (rule t[THEN conjunct2, THEN conjunct2, THEN conjunct2, THEN conjunct2, THEN conjunct2,
          THEN conjunct1, THEN mp, OF h3])
  have c: "docToTodo doc_title_only =
       \<lparr>todo_id = ''d1'', name = ''Lamp'', room = [], model = None, price = None,
        imgUrl = None, link = Some ''https://example.com'', completed = False\<rparr>"
    by (simp add: docToTodo_def doc_title_only_def Let_def)
  have d: "docToTodo doc_full =
       \<lparr>todo_id = ''d2'', name = ''Dyson'', room = ''Kuhinja'', model = Some ''V15'',
        price = Some (Finite 299), imgUrl = None, link = None, completed = True\<rparr>"
    by (simp add: docToTodo_def doc_full_def Let_def)
  show ?thesis using h1 h2 h3 h4 a b c d by (intro conjI)
qed

section \<open>Submitting the form\<close>

lemma trim_examples:
  "trim ''Milk'' = ''Milk''" "trim ''  '' = []" "trim '' Dyson  '' = ''Dyson''" "trim [] = []"
  "trim ''Kuhinja'' = ''Kuhinja''" "trim ''abc'' = ''abc''" "trim ''not a url'' = ''not a url''"
  "trim ''299'' = ''299''"
  by (simp_all add: trim_def isWhiteSpace_def)

lemma standin_examples:
  "parseFloat_digits ''abc'' = NaN" "parseFloat_digits ''299'' = Finite 299"
  "URL_https ''not a url'' = None"
  by (simp_all add: parseFloat_digits_def URL_https_def)

lemma isValidUrl_iff: "isValidUrl URL u \<longleftrightarrow> URL u \<noteq> None"
  by (simp add: isValidUrl_def split: option.split)

lemma abc_form_simps:
  "form_name (abc_form e n rm pr lnk) = n" "form_room (abc_form e n rm pr lnk) = rm"
  "form_price (abc_form e n rm pr lnk) = pr" "form_link (abc_form e n rm pr lnk) = lnk"
  "form_imgUrl (abc_form e n rm pr lnk) = []" "form_model (abc_form e n rm pr lnk) = []"
  "editId (abc_form e n rm pr lnk) = e" "selectedCollection (abc_form e n rm pr lnk) = ''todos''"
  "length (todos (abc_form e n rm pr lnk)) = 3"
  by (simp_all add: abc_form_def)

lemma trim_Kitchen: "trim ''Kitchen'' = ''Kitchen''"
  by (simp add: trim_def isWhiteSpace_def)

text \<open>What \<open>handleSubmit\<close> does on an invalid and on a valid input.\<close>

lemma handleSubmit_invalid:
  assumes "invalid_input parseFloat URL st"
  shows "handleSubmit parseFloat URL st =
     (st\<lparr>error := Some
        (if trim (form_name st) = [] then ''Naziv je obavezan.''
         else if trim (form_room st) = [] then ''Izaberite prostoriju.''
         else if trim (form_price st) \<noteq> [] \<and> isNaN (parseFloat (trim (form_price st)))
           then ''Cena mora biti broj (ako je navedena).''
         else ''Unesite ispravne URL-ove za sliku i link (ako su navedeni).'')\<rparr>, [])"
proof -
  consider (a) "trim (form_name st) = []"
    | (b) "trim (form_name st) \<noteq> []" "trim (form_room st) = []"
    | (c) "trim (form_name st) \<noteq> []" "trim (form_room st) \<noteq> []"
          "trim (form_price st) \<noteq> []" "isNaN (parseFloat (trim (form_price st)))"
    | (d) "trim (form_name st) \<noteq> []" "trim (form_room st) \<noteq> []"
          "\<not> (trim (form_price st) \<noteq> [] \<and> isNaN (parseFloat (trim (form_price st))))"
          "(trim (form_imgUrl st) \<noteq> [] \<and> URL (trim (form_imgUrl st)) = None)
           \<or> (trim (form_link st) \<noteq> [] \<and> URL (trim (form_link st)) = None)"
    using assms unfolding invalid_input_def by blast
  then show ?thesis
  proof cases
    case a
    then show ?thesis by (simp add: handleSubmit_def Let_def)
  next
    case b
    then show ?thesis by (simp add: handleSubmit_def Let_def)
  next
    case c
    then show ?thesis by (simp add: handleSubmit_def Let_def)
  next
    case d
    have p: "\<not> (trim (form_price st) \<noteq> [] \<and>
        isNaN (if trim (form_price st) \<noteq> [] then parseFloat (trim (form_price st)) else NaN))"
      using d(3) by auto
    have u: "(trim (form_imgUrl st) \<noteq> [] \<and> \<not> isValidUrl URL (trim (form_imgUrl st)))
           \<or> (trim (form_link st) \<noteq> [] \<and> \<not> isValidUrl URL (trim (form_link st)))"
      using d(4) by (simp add: isValidUrl_iff)
    show ?thesis
      unfolding handleSubmit_def Let_def
      by (simp only: d(1) d(2) d(3) p u if_False if_True)
  qed
qed

lemma handleSubmit_valid:
  assumes "\<not> invalid_input parseFloat URL st"
  shows "handleSubmit parseFloat URL st =
     (st\<lparr>error := None\<rparr>,
      [if editId st = None \<or> editId st = Some [] then
         AddDoc (selectedCollection st)
           (payloadAdd (trim (form_name st)) (trim (form_room st)) (trim (form_model st))
              (if trim (form_price st) \<noteq> [] then parseFloat (trim (form_price st)) else NaN)
              (trim (form_imgUrl st)) (trim (form_link st)) (length (todos st)))
       else
         UpdateDoc (selectedCollection st) (case editId st of Some e \<Rightarrow> e | None \<Rightarrow> [])
           (payloadUpdate (trim (form_name st)) (trim (form_room st)) (trim (form_model st))
              (trim (form_price st))
              (if trim (form_price st) \<noteq> [] then parseFloat (trim (form_price st)) else NaN)
              (trim (form_imgUrl st)) (trim (form_link st)))])"
proof -
  have n: "trim (form_name st) \<noteq> []" and rm: "trim (form_room st) \<noteq> []"
    using assms by (simp_all add: invalid_input_def)
  have p: "\<not> (trim (form_price st) \<noteq> [] \<and>
        isNaN (if trim (form_price st) \<noteq> [] then parseFloat (trim (form_price st)) else NaN))"
    using assms by (auto simp: invalid_input_def)
  have u: "\<not> ((trim (form_imgUrl st) \<noteq> [] \<and> \<not> isValidUrl URL (trim (form_imgUrl st)))
           \<or> (trim (form_link st) \<noteq> [] \<and> \<not> isValidUrl URL (trim (form_link st))))"
    using assms by (auto simp: invalid_input_def isValidUrl_iff)
  have "handleSubmit parseFloat URL st =
     (case editId st of
        None \<Rightarrow>
          (st\<lparr>error := None\<rparr>,
           [AddDoc (selectedCollection st)
             (payloadAdd (trim (form_name st)) (trim (form_room st)) (trim (form_model st))
              (if trim (form_price st) \<noteq> [] then parseFloat (trim (form_price st)) else NaN)
              (trim (form_imgUrl st)) (trim (form_link st)) (length (todos st)))])
      | Some e \<Rightarrow>
          if e \<noteq> [] then
            (st\<lparr>error := None\<rparr>,
             [UpdateDoc (selectedCollection st) e
               (payloadUpdate (trim (form_name st)) (trim (form_room st)) (trim (form_model st))
                 (trim (form_price st))
                 (if trim (form_price st) \<noteq> [] then parseFloat (trim (form_price st)) else NaN)
                 (trim (form_imgUrl st)) (trim (form_link st)))])
          else
            (st\<lparr>error := None\<rparr>,
             [AddDoc (selectedCollection st)
               (payloadAdd (trim (form_name st)) (trim (form_room st)) (trim (form_model st))
                 (if trim (form_price st) \<noteq> [] then parseFloat (trim (form_price st)) else NaN)
                 (trim (form_imgUrl st)) (trim (form_link st)) (length (todos st)))]))"
    unfolding handleSubmit_def Let_def
    by (simp only: n rm p u if_False if_True)
  then show ?thesis by (cases "editId st") simp_all
qed

lemma map_of_payloadAdd_sort:
  "map_of (payloadAdd n rm m p img lnk len) ''sort'' = Some (VNum (js_of_nat len))"
  by (simp add: payloadAdd_def map_of_append)

lemma payloadAdd_keys_distinct: "distinct (map fst (payloadAdd n rm m p img lnk len))"
  by (simp add: payloadAdd_def)

lemma map_of_payloadUpdate:
  "map fst (payloadUpdate n rm m priceText p img lnk) =
     [''name'', ''room'', ''model'', ''price'', ''imgUrl'', ''link'']"
  "map_of (payloadUpdate n rm m priceText p img lnk) ''model'' =
     Some (if m = [] then DeleteField else VStr m)"
  "map_of (payloadUpdate n rm m priceText p img lnk) ''price'' =
     Some (if priceText = [] then DeleteField else VNum p)"
  "map_of (payloadUpdate n rm m priceText p img lnk) ''imgUrl'' =
     Some (if img = [] then DeleteField else VStr img)"
  "map_of (payloadUpdate n rm m priceText p img lnk) ''link'' =
     Some (if lnk = [] then DeleteField else VStr lnk)"
  by (simp_all add: payloadUpdate_def)

lemma add_Milk_valid:
  "\<not> invalid_input parseFloat_digits URL_https (abc_form None ''Milk'' ''Kitchen'' [] [])"
  by (simp add: invalid_input_def abc_form_simps trim_examples trim_Kitchen)

lemma add_Milk:
  "handleSubmit parseFloat_digits URL_https (abc_form None ''Milk'' ''Kitchen'' [] []) =
         ((abc_form None ''Milk'' ''Kitchen'' [] [])\<lparr>error := None\<rparr>,
          [AddDoc ''todos''
             [(''name'', VStr ''Milk''), (''room'', VStr ''Kitchen''), (''completed'', VBool False),
              (''createdAt'', ServerTimestamp), (''sort'', VNum (js_of_nat 3))]])"
  by (simp add: handleSubmit_def Let_def abc_form_simps trim_examples trim_Kitchen payloadAdd_def)

lemma edit_Milk_valid:
  "\<not> invalid_input parseFloat_digits URL_https (abc_form (Some ''A'') ''Milk'' ''Kuhinja'' [] [])"
  by (simp add: invalid_input_def abc_form_simps trim_examples)

lemma edit_Milk:
  "handleSubmit parseFloat_digits URL_https (abc_form (Some ''A'') ''Milk'' ''Kuhinja'' [] []) =
       ((abc_form (Some ''A'') ''Milk'' ''Kuhinja'' [] [])\<lparr>error := None\<rparr>,
        [UpdateDoc ''todos'' ''A''
           [(''name'', VStr ''Milk''), (''room'', VStr ''Kuhinja''), (''model'', DeleteField),
            (''price'', DeleteField), (''imgUrl'', DeleteField), (''link'', DeleteField)]])"
  by (simp add: handleSubmit_def Let_def abc_form_simps trim_examples payloadUpdate_def)

text \<open>
  What the four checks reject. A submission (add or edit) that fails one of them returns
  before any remote call: the only change of the state is the error message, which is
  one of the four messages of the form; the Local View is as before and no effect is
  issued.
\<close>

lemma handleSubmit_rejects_invalid:
  assumes "invalid_input parseFloat URL st"
  shows "\<exists>msg. handleSubmit parseFloat URL st = (st\<lparr>error := Some msg\<rparr>, [])
     \<and> msg \<in> set [''Naziv je obavezan.'', ''Izaberite prostoriju.'',
          ''Cena mora biti broj (ako je navedena).'',
          ''Unesite ispravne URL-ove za sliku i link (ako su navedeni).'']
     \<and> todos (fst (handleSubmit parseFloat URL st)) = todos st
     \<and> filter remote_call (snd (handleSubmit parseFloat URL st)) = []"
proof -
  let ?msg = "if trim (form_name st) = [] then ''Naziv je obavezan.''
         else if trim (form_room st) = [] then ''Izaberite prostoriju.''
         else if trim (form_price st) \<noteq> [] \<and> isNaN (parseFloat (trim (form_price st)))
           then ''Cena mora biti broj (ako je navedena).''
         else ''Unesite ispravne URL-ove za sliku i link (ako su navedeni).''"
  have r: "handleSubmit parseFloat URL st = (st\<lparr>error := Some ?msg\<rparr>, [])"
    using assms by (rule handleSubmit_invalid)
  have m: "?msg \<in> set [''Naziv je obavezan.'', ''Izaberite prostoriju.'',
          ''Cena mora biti broj (ako je navedena).'',
          ''Unesite ispravne URL-ove za sliku i link (ako su navedeni).'']"
    by simp
  show ?thesis
  proof (intro exI[of _ ?msg] conjI)
    show "handleSubmit parseFloat URL st = (st\<lparr>error := Some ?msg\<rparr>, [])" by (rule r)
    show "?msg \<in> set [''Naziv je obavezan.'', ''Izaberite prostoriju.'',
          ''Cena mora biti broj (ako je navedena).'',
          ''Unesite ispravne URL-ove za sliku i link (ako su navedeni).'']" by (rule m)
    show "todos (fst (handleSubmit parseFloat URL st)) = todos st" by (simp add: r)
    show "filter remote_call (snd (handleSubmit parseFloat URL st)) = []" by (simp add: r)
  qed
qed

lemma handleSubmit_rejects_invalid_examples:
  "invalid_input parseFloat_digits URL_https (abc_form None ''  '' ''Kuhinja'' [] [])
   \<and> handleSubmit parseFloat_digits URL_https (abc_form None ''  '' ''Kuhinja'' [] []) =
       ((abc_form None ''  '' ''Kuhinja'' [] [])\<lparr>error := Some ''Naziv je obavezan.''\<rparr>, [])
   \<and> invalid_input parseFloat_digits URL_https (abc_form None ''Milk'' [] [] [])
   \<and> handleSubmit parseFloat_digits URL_https (abc_form None ''Milk'' [] [] []) =
       ((abc_form None ''Milk'' [] [] [])\<lparr>error := Some ''Izaberite prostoriju.''\<rparr>, [])
   \<and> invalid_input parseFloat_digits URL_https (abc_form (Some ''A'') ''Milk'' ''Kuhinja'' ''abc'' [])
   \<and> handleSubmit parseFloat_digits URL_https (abc_form (Some ''A'') ''Milk'' ''Kuhinja'' ''abc'' []) =
       ((abc_form (Some ''A'') ''Milk'' ''Kuhinja'' ''abc'' [])
          \<lparr>error := Some ''Cena mora biti broj (ako je navedena).''\<rparr>, [])
   \<and> invalid_input parseFloat_digits URL_https (abc_form None ''Milk'' ''Kuhinja'' ''299'' ''not a url'')
   \<and> handleSubmit parseFloat_digits URL_https (abc_form None ''Milk'' ''Kuhinja'' ''299'' ''not a url'') =
       ((abc_form None ''Milk'' ''Kuhinja'' ''299'' ''not a url'')
          \<lparr>error := Some ''Unesite ispravne URL-ove za sliku i link (ako su navedeni).''\<rparr>, [])"
proof -
  have f: "form_name (abc_form e n rm pr lnk) = n" "form_room (abc_form e n rm pr lnk) = rm"
    "form_price (abc_form e n rm pr lnk) = pr" "form_link (abc_form e n rm pr lnk) = lnk"
    "form_imgUrl (abc_form e n rm pr lnk) = []" "form_model (abc_form e n rm pr lnk) = []"
    for e n rm pr lnk
    by (simp_all add: abc_form_def)
  have i1: "invalid_input parseFloat_digits URL_https (abc_form None ''  '' ''Kuhinja'' [] [])"
    by (simp add: invalid_input_def f trim_examples)
  have i2: "invalid_input parseFloat_digits URL_https (abc_form None ''Milk'' [] [] [])"
    by (simp add: invalid_input_def f trim_examples)
  have i3: "invalid_input parseFloat_digits URL_https (abc_form (Some ''A'') ''Milk'' ''Kuhinja'' ''abc'' [])"
    by (simp add: invalid_input_def f trim_examples standin_examples)
  have i4: "invalid_input parseFloat_digits URL_https (abc_form None ''Milk'' ''Kuhinja'' ''299'' ''not a url'')"
    by (simp add: invalid_input_def f trim_examples standin_examples)
  have e1: "handleSubmit parseFloat_digits URL_https (abc_form None ''  '' ''Kuhinja'' [] []) =
       ((abc_form None ''  '' ''Kuhinja'' [] [])\<lparr>error := Some ''Naziv je obavezan.''\<rparr>, [])"
    by (simp add: handleSubmit_def Let_def f trim_examples)
  have e2: "handleSubmit parseFloat_digits URL_https (abc_form None ''Milk'' [] [] []) =
       ((abc_form None ''Milk'' [] [] [])\<lparr>error := Some ''Izaberite prostoriju.''\<rparr>, [])"
    by (simp add: handleSubmit_def Let_def f trim_examples)
  have e3: "handleSubmit parseFloat_digits URL_https (abc_form (Some ''A'') ''Milk'' ''Kuhinja'' ''abc'' []) =
       ((abc_form (Some ''A'') ''Milk'' ''Kuhinja'' ''abc'' [])
          \<lparr>error := Some ''Cena mora biti broj (ako je navedena).''\<rparr>, [])"
    by (simp add: handleSubmit_def Let_def f trim_examples standin_examples)
  have e4: "handleSubmit parseFloat_digits URL_https (abc_form None ''Milk'' ''Kuhinja'' ''299'' ''not a url'') =
       ((abc_form None ''Milk'' ''Kuhinja'' ''299'' ''not a url'')
          \<lparr>error := Some ''Unesite ispravne URL-ove za sliku i link (ako su navedeni).''\<rparr>, [])"
    by (simp add: handleSubmit_def Let_def f trim_examples standin_examples isValidUrl_def)
  show ?thesis
    using handleSubmit_rejects_invalid[OF i1] i1 i2 i3 i4 e1 e2 e3 e4 by blast
qed

lemma parseFloat_js_examples:
  "parseFloat_js ''12abc'' = Finite 12" "parseFloat_js ''299,99'' = Finite 299"
  "parseFloat_js ''abc'' = NaN"
  by (simp_all add: parseFloat_js_def strDecimalLiteral_def strUnsignedDecimalLiteral_def
      fractionPart_def exponentPart_def pow10_def digitsValue_def isDigit_def isWhiteSpace_def)

lemma numeric_text_examples:
  "\<not> numeric_text ''12abc''" "\<not> numeric_text ''299,99''" "numeric_text ''299.99''"
  by (simp_all add: numeric_text_def strDecimalLiteral_def strUnsignedDecimalLiteral_def
      fractionPart_def exponentPart_def pow10_def digitsValue_def isDigit_def)

lemma trim_prices: "trim ''12abc'' = ''12abc''" "trim ''299,99'' = ''299,99''"
  by (simp_all add: trim_def isWhiteSpace_def)

text \<open>
  Claim C8 says that an add or edit with invalid input (missing title, missing category,
  non-numeric price, malformed URL) is rejected before any remote call, with an error
  message and no change of the Local View. The code breaks this for a price that is not
  a number but starts with one: \<open>Number.parseFloat\<close> reads the leading digits and ignores
  the rest, so the check for \<open>NaN\<close> passes. With the price \<open>12abc\<close> an add clears the error
  and calls \<open>addDoc\<close> with price 12; with the price \<open>299,99\<close> an edit calls \<open>updateDoc\<close> with
  price 299. The message of that check reads \<open>Cena mora biti broj (ako je navedena).\<close>
\<close>

theorem handleSubmit_accepts_nonnumeric_price:
  "\<not> numeric_text (trim ''12abc'')
   \<and> handleSubmit parseFloat_js URL_https (abc_form None ''Milk'' ''Kuhinja'' ''12abc'' []) =
       ((abc_form None ''Milk'' ''Kuhinja'' ''12abc'' [])\<lparr>error := None\<rparr>,
        [AddDoc ''todos''
           [(''name'', VStr ''Milk''), (''room'', VStr ''Kuhinja''), (''completed'', VBool False),
            (''createdAt'', ServerTimestamp), (''price'', VNum (Finite 12)),
            (''sort'', VNum (js_of_nat 3))]])
   \<and> \<not> numeric_text (trim ''299,99'')
   \<and> handleSubmit parseFloat_js URL_https (abc_form (Some ''A'') ''Milk'' ''Kuhinja'' ''299,99'' []) =
       ((abc_form (Some ''A'') ''Milk'' ''Kuhinja'' ''299,99'' [])\<lparr>error := None\<rparr>,
        [UpdateDoc ''todos'' ''A''
           [(''name'', VStr ''Milk''), (''room'', VStr ''Kuhinja''), (''model'', DeleteField),
            (''price'', VNum (Finite 299)), (''imgUrl'', DeleteField), (''link'', DeleteField)]])"
proof (intro conjI)
  show "\<not> numeric_text (trim ''12abc'')" by (simp add: trim_prices numeric_text_examples)
  show "\<not> numeric_text (trim ''299,99'')" by (simp add: trim_prices numeric_text_examples)
  show "handleSubmit parseFloat_js URL_https (abc_form None ''Milk'' ''Kuhinja'' ''12abc'' []) =
       ((abc_form None ''Milk'' ''Kuhinja'' ''12abc'' [])\<lparr>error := None\<rparr>,
        [AddDoc ''todos''
           [(''name'', VStr ''Milk''), (''room'', VStr ''Kuhinja''), (''completed'', VBool False),
            (''createdAt'', ServerTimestamp), (''price'', VNum (Finite 12)),
            (''sort'', VNum (js_of_nat 3))]])"
    by (simp add: handleSubmit_def Let_def abc_form_simps trim_examples trim_prices
        parseFloat_js_examples payloadAdd_def)
  show "handleSubmit parseFloat_js URL_https (abc_form (Some ''A'') ''Milk'' ''Kuhinja'' ''299,99'' []) =
       ((abc_form (Some ''A'') ''Milk'' ''Kuhinja'' ''299,99'' [])\<lparr>error := None\<rparr>,
        [UpdateDoc ''todos'' ''A''
           [(''name'', VStr ''Milk''), (''room'', VStr ''Kuhinja''), (''model'', DeleteField),
            (''price'', VNum (Finite 299)), (''imgUrl'', DeleteField), (''link'', DeleteField)]])"
    by (simp add: handleSubmit_def Let_def abc_form_simps trim_examples trim_prices
        parseFloat_js_examples payloadUpdate_def)
qed

text \<open>
  Claim C6. An add (no \<open>editId\<close>) that passes validation issues one \<open>addDoc\<close> on the
  selected collection whose payload holds \<open>sort\<close> equal to the number of items in the
  Local View at the time of the request. With three items, adding Milk in Kitchen
  writes \<open>sort\<close> = 3.
\<close>

theorem handleSubmit_add_appends:
  assumes "\<not> invalid_input parseFloat URL st"
    and "editId st = None \<or> editId st = Some []"
  shows "\<exists>pl. handleSubmit parseFloat URL st =
             (st\<lparr>error := None\<rparr>, [AddDoc (selectedCollection st) pl])
     \<and> map_of pl ''sort'' = Some (VNum (js_of_nat (length (todos st))))
     \<and> distinct (map fst pl)"
proof -
  let ?pl = "payloadAdd (trim (form_name st)) (trim (form_room st)) (trim (form_model st))
              (if trim (form_price st) \<noteq> [] then parseFloat (trim (form_price st)) else NaN)
              (trim (form_imgUrl st)) (trim (form_link st)) (length (todos st))"
  have "handleSubmit parseFloat URL st = (st\<lparr>error := None\<rparr>, [AddDoc (selectedCollection st) ?pl])"
    using handleSubmit_valid[OF assms(1)] assms(2) by simp
  moreover have "map_of ?pl ''sort'' = Some (VNum (js_of_nat (length (todos st))))"
    by (rule map_of_payloadAdd_sort)
  moreover have "distinct (map fst ?pl)" by (rule payloadAdd_keys_distinct)
  ultimately show ?thesis by blast
qed

theorem handleSubmit_add_appends_witness:
  "\<not> invalid_input parseFloat_digits URL_https (abc_form None ''Milk'' ''Kitchen'' [] [])
   \<and> editId (abc_form None ''Milk'' ''Kitchen'' [] []) = None
   \<and> length (todos (abc_form None ''Milk'' ''Kitchen'' [] [])) = 3
   \<and> handleSubmit parseFloat_digits URL_https (abc_form None ''Milk'' ''Kitchen'' [] []) =
         ((abc_form None ''Milk'' ''Kitchen'' [] [])\<lparr>error := None\<rparr>,
          [AddDoc ''todos''
             [(''name'', VStr ''Milk''), (''room'', VStr ''Kitchen''), (''completed'', VBool False),
              (''createdAt'', ServerTimestamp), (''sort'', VNum (js_of_nat 3))]])
   \<and> (\<exists>pl. handleSubmit parseFloat_digits URL_https (abc_form None ''Milk'' ''Kitchen'' [] []) =
             ((abc_form None ''Milk'' ''Kitchen'' [] [])\<lparr>error := None\<rparr>, [AddDoc ''todos'' pl])
         \<and> map_of pl ''sort'' = Some (VNum (js_of_nat 3))
         \<and> distinct (map fst pl))"
proof -
  have e: "editId (abc_form None ''Milk'' ''Kitchen'' [] []) = None \<or>
           editId (abc_form None ''Milk'' ''Kitchen'' [] []) = Some []"
    by (simp add: abc_form_simps)
  note w = handleSubmit_add_appends[OF add_Milk_valid e]
  show ?thesis
  proof (intro conjI)
    show "\<not> invalid_input parseFloat_digits URL_https (abc_form None ''Milk'' ''Kitchen'' [] [])"
      by (rule add_Milk_valid)
    show "editId (abc_form None ''Milk'' ''Kitchen'' [] []) = None"
      by (rule abc_form_simps)
    show "length (todos (abc_form None ''Milk'' ''Kitchen'' [] [])) = 3"
      by (rule abc_form_simps)
    show "handleSubmit parseFloat_digits URL_https (abc_form None ''Milk'' ''Kitchen'' [] []) =
         ((abc_form None ''Milk'' ''Kitchen'' [] [])\<lparr>error := None\<rparr>,
          [AddDoc ''todos''
             [(''name'', VStr ''Milk''), (''room'', VStr ''Kitchen''), (''completed'', VBool False),
              (''createdAt'', ServerTimestamp), (''sort'', VNum (js_of_nat 3))]])"
      by (rule add_Milk)
    show "\<exists>pl. handleSubmit parseFloat_digits URL_https (abc_form None ''Milk'' ''Kitchen'' [] []) =
             ((abc_form None ''Milk'' ''Kitchen'' [] [])\<lparr>error := None\<rparr>, [AddDoc ''todos'' pl])
         \<and> map_of pl ''sort'' = Some (VNum (js_of_nat 3))
         \<and> distinct (map fst pl)"
      by (rule w[unfolded abc_form_simps])
  qed
qed

text \<open>
  Claim C7. An edit that passes validation issues one \<open>updateDoc\<close> of the edited item
  whose payload names the four optional fields \<open>model\<close>, \<open>price\<close>, \<open>imgUrl\<close>, \<open>link\<close>; each
  of them that is empty after trimming is written as the removal sentinel
  \<open>deleteField()\<close>, and otherwise as its value. With an empty price the payload asks for
  the removal of \<open>price\<close>.
\<close>

theorem handleSubmit_edit_removes_cleared_fields:
  assumes "\<not> invalid_input parseFloat URL st"
    and "editId st = Some e" and "e \<noteq> []"
  shows "\<exists>pl. handleSubmit parseFloat URL st =
             (st\<lparr>error := None\<rparr>, [UpdateDoc (selectedCollection st) e pl])
     \<and> map fst pl = [''name'', ''room'', ''model'', ''price'', ''imgUrl'', ''link'']
     \<and> map_of pl ''model'' =
         Some (if trim (form_model st) = [] then DeleteField else VStr (trim (form_model st)))
     \<and> map_of pl ''price'' =
         Some (if trim (form_price st) = [] then DeleteField
               else VNum (parseFloat (trim (form_price st))))
     \<and> map_of pl ''imgUrl'' =
         Some (if trim (form_imgUrl st) = [] then DeleteField else VStr (trim (form_imgUrl st)))
     \<and> map_of pl ''link'' =
         Some (if trim (form_link st) = [] then DeleteField else VStr (trim (form_link st)))
     \<and> (trim (form_price st) = [] \<or> \<not> isNaN (parseFloat (trim (form_price st))))"
proof -
  let ?p = "if trim (form_price st) \<noteq> [] then parseFloat (trim (form_price st)) else NaN"
  let ?pl = "payloadUpdate (trim (form_name st)) (trim (form_room st)) (trim (form_model st))
              (trim (form_price st)) ?p (trim (form_imgUrl st)) (trim (form_link st))"
  have "handleSubmit parseFloat URL st = (st\<lparr>error := None\<rparr>, [UpdateDoc (selectedCollection st) e ?pl])"
    unfolding handleSubmit_valid[OF assms(1)] using assms(2,3) by simp
  moreover have "map_of ?pl ''price'' =
         Some (if trim (form_price st) = [] then DeleteField
               else VNum (parseFloat (trim (form_price st))))"
    by (simp add: map_of_payloadUpdate(3))
  moreover have "trim (form_price st) = [] \<or> \<not> isNaN (parseFloat (trim (form_price st)))"
    using assms(1) by (auto simp: invalid_input_def)
  ultimately show ?thesis
    by (intro exI[of _ ?pl] conjI map_of_payloadUpdate)
qed

theorem handleSubmit_edit_removes_cleared_fields_witness:
  "\<not> invalid_input parseFloat_digits URL_https (abc_form (Some ''A'') ''Milk'' ''Kuhinja'' [] [])
   \<and> editId (abc_form (Some ''A'') ''Milk'' ''Kuhinja'' [] []) = Some ''A'' \<and> ''A'' \<noteq> []
   \<and> handleSubmit parseFloat_digits URL_https (abc_form (Some ''A'') ''Milk'' ''Kuhinja'' [] []) =
       ((abc_form (Some ''A'') ''Milk'' ''Kuhinja'' [] [])\<lparr>error := None\<rparr>,
        [UpdateDoc ''todos'' ''A''
           [(''name'', VStr ''Milk''), (''room'', VStr ''Kuhinja''), (''model'', DeleteField),
            (''price'', DeleteField), (''imgUrl'', DeleteField), (''link'', DeleteField)]])
   \<and> (\<exists>pl. handleSubmit parseFloat_digits URL_https (abc_form (Some ''A'') ''Milk'' ''Kuhinja'' [] []) =
             ((abc_form (Some ''A'') ''Milk'' ''Kuhinja'' [] [])\<lparr>error := None\<rparr>,
              [UpdateDoc ''todos'' ''A'' pl])
         \<and> map_of pl ''price'' = Some DeleteField)"
proof -
  have e: "editId (abc_form (Some ''A'') ''Milk'' ''Kuhinja'' [] []) = Some ''A''"
    by (rule abc_form_simps)
  have ne: "''A'' \<noteq> []" by simp
  from handleSubmit_edit_removes_cleared_fields[OF edit_Milk_valid e ne]
  have "\<exists>pl. handleSubmit parseFloat_digits URL_https (abc_form (Some ''A'') ''Milk'' ''Kuhinja'' [] []) =
             ((abc_form (Some ''A'') ''Milk'' ''Kuhinja'' [] [])\<lparr>error := None\<rparr>,
              [UpdateDoc (selectedCollection (abc_form (Some ''A'') ''Milk'' ''Kuhinja'' [] [])) ''A'' pl])
         \<and> map_of pl ''price'' =
             Some (if trim (form_price (abc_form (Some ''A'') ''Milk'' ''Kuhinja'' [] [])) = []
                   then DeleteField
                   else VNum (parseFloat_digits
                          (trim (form_price (abc_form (Some ''A'') ''Milk'' ''Kuhinja'' [] [])))))"
    by (elim exE conjE) (intro exI conjI, assumption+)
  then have w: "\<exists>pl. handleSubmit parseFloat_digits URL_https (abc_form (Some ''A'') ''Milk'' ''Kuhinja'' [] []) =
             ((abc_form (Some ''A'') ''Milk'' ''Kuhinja'' [] [])\<lparr>error := None\<rparr>,
              [UpdateDoc ''todos'' ''A'' pl])
         \<and> map_of pl ''price'' = Some DeleteField"
    unfolding abc_form_simps trim_examples by (simp only: simp_thms if_True)
  show ?thesis
  proof (intro conjI)
    show "\<not> invalid_input parseFloat_digits URL_https (abc_form (Some ''A'') ''Milk'' ''Kuhinja'' [] [])"
      by (rule edit_Milk_valid)
    show "editId (abc_form (Some ''A'') ''Milk'' ''Kuhinja'' [] []) = Some ''A''" by (rule e)
    show "''A'' \<noteq> []" by (rule ne)
    show "handleSubmit parseFloat_digits URL_https (abc_form (Some ''A'') ''Milk'' ''Kuhinja'' [] []) =
       ((abc_form (Some ''A'') ''Milk'' ''Kuhinja'' [] [])\<lparr>error := None\<rparr>,
        [UpdateDoc ''todos'' ''A''
           [(''name'', VStr ''Milk''), (''room'', VStr ''Kuhinja''), (''model'', DeleteField),
            (''price'', DeleteField), (''imgUrl'', DeleteField), (''link'', DeleteField)]])"
      by (rule edit_Milk)
    show "\<exists>pl. handleSubmit parseFloat_digits URL_https (abc_form (Some ''A'') ''Milk'' ''Kuhinja'' [] []) =
             ((abc_form (Some ''A'') ''Milk'' ''Kuhinja'' [] [])\<lparr>error := None\<rparr>,
              [UpdateDoc ''todos'' ''A'' pl])
         \<and> map_of pl ''price'' = Some DeleteField"
      by (rule w)
  qed
qed

end
